theory Spec2Isabelle
  imports Main "HOL-Library.Word"
begin

unbundle bit_operations_syntax

section \<open>The beacon fixture generator of the relayer (relayer/cmd/generate_beacon_data.go)\<close>

text \<open>
  The two cobra commands \<open>generate-beacon-checkpoint\<close> and \<open>generate-beacon-data\<close> are
  embedded as functions over an explicit state: the trace of the effects the command has
  performed so far (log lines, calls to the beacon client, file operations, output) and the
  contents of the files it has written. Everything the commands obtain from outside the
  file (the beacon client, viper, the JSON and SCALE encoders, the file system, the mustache
  engine) is a field of the record \<open>World\<close>; every Go \<open>error\<close> result is a value.
\<close>

subsection \<open>Values\<close>

type_synonym u64 = "64 word"
type_synonym byte = "8 word"

text \<open>A Go \<open>error\<close>: one produced by a library, or one built by \<open>fmt.Errorf\<close> from a
  format string, its \<open>%d\<close> arguments and the error it wraps with \<open>%w\<close>.\<close>

datatype Error = ExternalError string | Errorf string "u64 list" "Error option"

subsection \<open>Flags of a cobra command\<close>

datatype FlagValue = StringValue string | BoolValue bool

record Command =
  Use :: string
  Short :: string
  Flags :: "(string \<times> FlagValue) list"
  Required :: "string list"

text \<open>\<open>cmd.Flags().GetString(name)\<close> and \<open>GetBool(name)\<close> of pflag: the flag is looked up
  under exactly the name given; a name that was never defined yields the zero value and an
  error.\<close>

definition GetString :: "Command \<Rightarrow> string \<Rightarrow> string \<times> Error option" where
  "GetString cmd name =
     (case map_of (Flags cmd) name of
        None \<Rightarrow> ([], Some (ExternalError (''flag accessed but not defined: '' @ name)))
      | Some (StringValue s) \<Rightarrow> (s, None)
      | Some (BoolValue b) \<Rightarrow>
          ([], Some (ExternalError ''trying to get string value of flag of type bool'')))"

definition GetBool :: "Command \<Rightarrow> string \<Rightarrow> bool \<times> Error option" where
  "GetBool cmd name =
     (case map_of (Flags cmd) name of
        None \<Rightarrow> (False, Some (ExternalError (''flag accessed but not defined: '' @ name)))
      | Some (BoolValue b) \<Rightarrow> (b, None)
      | Some (StringValue s) \<Rightarrow>
          (False, Some (ExternalError ''trying to get bool value of flag of type string'')))"

text \<open>Lines 22-42.\<close>

definition generateBeaconDataCmd :: Command where
  "generateBeaconDataCmd =
     \<lparr>Use = ''generate-beacon-data'',
      Short = ''Generate beacon data.'',
      Flags = [(''spec'', StringValue ''''),
               (''url'', StringValue ''http://127.0.0.1:9596'')],
      Required = [''spec'']\<rparr>"

text \<open>Lines 44-69.\<close>

definition generateBeaconCheckpointCmd :: Command where
  "generateBeaconCheckpointCmd =
     \<lparr>Use = ''generate-beacon-checkpoint'',
      Short = ''Generate beacon checkpoint.'',
      Flags = [(''spec'', StringValue ''''),
               (''url'', StringValue ''http://127.0.0.1:9596''),
               (''export-json'', BoolValue True)],
      Required = [''spec'']\<rparr>"

text \<open>The command after the operator's command line has been parsed: a flag the operator
  passed takes the value passed, every other flag keeps its default. Operator values for
  names the command does not define never reach the command function.\<close>

definition withFlags :: "Command \<Rightarrow> (string \<times> FlagValue) list \<Rightarrow> Command" where
  "withFlags cmd args =
     cmd\<lparr>Flags := map (\<lambda>(name, dflt).
                          (name, case map_of args name of None \<Rightarrow> dflt | Some v \<Rightarrow> v))
                        (Flags cmd)\<rparr>"

subsection \<open>Network spec (package config)\<close>

datatype ActiveSpec = Mainnet | Minimal

text \<open>Modelled from the spec: \<open>config.ToSpec\<close>, \<open>ActiveSpec.ToString\<close> and
  \<open>ActiveSpec.IsMainnet\<close> are missing; the spec (section 6) and the flag's help text give
  the two valid identifiers \<open>mainnet\<close> and \<open>minimal\<close>.\<close>

definition ToSpec :: "string \<Rightarrow> Error + ActiveSpec" where
  "ToSpec spec =
     (if spec = ''mainnet'' then Inr Mainnet
      else if spec = ''minimal'' then Inr Minimal
      else Inl (ExternalError ''spec is not a valid value''))"

fun ToString :: "ActiveSpec \<Rightarrow> string" where
  "ToString Mainnet = ''mainnet''"
| "ToString Minimal = ''minimal''"

fun IsMainnet :: "ActiveSpec \<Rightarrow> bool" where
  "IsMainnet Mainnet = True"
| "IsMainnet Minimal = False"

record SpecSettings =
  SlotsInEpoch :: u64
  EpochsPerSyncCommitteePeriod :: u64
  MaxSlotsPerHistoricalRoot :: u64

text \<open>Modelled from the spec: \<open>config.Config\<close> is missing; the spec's network spec resolver
  maps a spec identifier to its timing constants.\<close>

type_synonym Config = "ActiveSpec \<Rightarrow> SpecSettings"

definition GetSpecSettingsBySpec :: "Config \<Rightarrow> ActiveSpec \<Rightarrow> SpecSettings" where
  "GetSpecSettingsBySpec conf activeSpec = conf activeSpec"

subsection \<open>JSON artifacts (package beaconjson)\<close>

text \<open>Modelled from the spec: the record types of the four artifacts are missing. Each
  record keeps the fields the command reads (\<open>Header.Slot\<close>, \<open>AttestedHeader.Slot\<close>,
  \<open>SignatureSlot\<close>) and the hash-valued fields the spec names in sections 3 and 4.4: block
  roots, state roots, signature bytes and Merkle proof entries, all hex strings.\<close>

record BeaconHeader =
  Slot :: u64
  ProposerIndex :: u64
  ParentRoot :: string
  StateRoot :: string
  BodyRoot :: string

record SyncAggregate =
  SyncCommitteeBits :: string
  SyncCommitteeSignature :: string

record CheckPoint =
  Header :: BeaconHeader
  BlockRootsRoot :: string
  BlockRootsBranch :: "string list"

record Update =
  AttestedHeader :: BeaconHeader
  SyncAggregate :: SyncAggregate
  SignatureSlot :: u64
  FinalizedHeader :: BeaconHeader
  FinalityBranch :: "string list"
  BlockRootsRoot :: string
  BlockRootsBranch :: "string list"

record HeaderUpdate =
  Header :: BeaconHeader
  AncestryProof :: "string list"
  FinalizedBlockRoot :: string
  ExecutionBranch :: "string list"

text \<open>The \<open>interface{}\<close> argument of \<open>writeJSONToFile\<close>: one of the three artifact types.\<close>

datatype JSONData =
  CheckPointJSON CheckPoint | UpdateJSON Update | HeaderUpdateJSON HeaderUpdate

text \<open>Lines 71-76.\<close>

record Data =
  CheckpointUpdate :: CheckPoint
  SyncCommitteeUpdate :: Update
  FinalizedHeaderUpdate :: Update
  HeaderUpdate :: HeaderUpdate

subsection \<open>The hex canonicalizer\<close>

text \<open>Modelled from the spec: \<open>RemoveLeadingZeroHashes\<close> is missing. Section 4.4: it visits
  every hash-valued field and removes a fixed two-character prefix if present; the comment
  at line 245 names the prefix, \<open>0x\<close>.\<close>

definition removeLeadingZeroHash :: "string \<Rightarrow> string" where
  "removeLeadingZeroHash s = (if take 2 s = ''0x'' then drop 2 s else s)"

definition BeaconHeader_RemoveLeadingZeroHashes :: "BeaconHeader \<Rightarrow> BeaconHeader" where
  "BeaconHeader_RemoveLeadingZeroHashes h =
     h\<lparr>ParentRoot := removeLeadingZeroHash (ParentRoot h),
       StateRoot := removeLeadingZeroHash (StateRoot h),
       BodyRoot := removeLeadingZeroHash (BodyRoot h)\<rparr>"

definition SyncAggregate_RemoveLeadingZeroHashes :: "SyncAggregate \<Rightarrow> SyncAggregate" where
  "SyncAggregate_RemoveLeadingZeroHashes a =
     a\<lparr>SyncCommitteeBits := removeLeadingZeroHash (SyncCommitteeBits a),
       SyncCommitteeSignature := removeLeadingZeroHash (SyncCommitteeSignature a)\<rparr>"

definition CheckPoint_RemoveLeadingZeroHashes :: "CheckPoint \<Rightarrow> CheckPoint" where
  "CheckPoint_RemoveLeadingZeroHashes p =
     \<lparr>CheckPoint.Header = BeaconHeader_RemoveLeadingZeroHashes (CheckPoint.Header p),
      CheckPoint.BlockRootsRoot = removeLeadingZeroHash (CheckPoint.BlockRootsRoot p),
      CheckPoint.BlockRootsBranch = map removeLeadingZeroHash (CheckPoint.BlockRootsBranch p)\<rparr>"

definition Update_RemoveLeadingZeroHashes :: "Update \<Rightarrow> Update" where
  "Update_RemoveLeadingZeroHashes u =
     \<lparr>AttestedHeader = BeaconHeader_RemoveLeadingZeroHashes (AttestedHeader u),
      SyncAggregate = SyncAggregate_RemoveLeadingZeroHashes (SyncAggregate u),
      SignatureSlot = SignatureSlot u,
      FinalizedHeader = BeaconHeader_RemoveLeadingZeroHashes (FinalizedHeader u),
      FinalityBranch = map removeLeadingZeroHash (FinalityBranch u),
      Update.BlockRootsRoot = removeLeadingZeroHash (Update.BlockRootsRoot u),
      Update.BlockRootsBranch = map removeLeadingZeroHash (Update.BlockRootsBranch u)\<rparr>"

definition HeaderUpdate_RemoveLeadingZeroHashes :: "HeaderUpdate \<Rightarrow> HeaderUpdate" where
  "HeaderUpdate_RemoveLeadingZeroHashes u =
     \<lparr>HeaderUpdate.Header = BeaconHeader_RemoveLeadingZeroHashes (HeaderUpdate.Header u),
      AncestryProof = map removeLeadingZeroHash (AncestryProof u),
      FinalizedBlockRoot = removeLeadingZeroHash (FinalizedBlockRoot u),
      ExecutionBranch = map removeLeadingZeroHash (ExecutionBranch u)\<rparr>"

subsection \<open>The beacon client (package syncer)\<close>

text \<open>The SCALE-side values the client returns. The checkpoint, the header update and the
  block-roots tree are only passed on by the command, so their types are parameters
  (\<open>'cp\<close>, \<open>'hu\<close>, \<open>'tr\<close>); of an update the command reads \<open>Payload.FinalizedHeader.Slot\<close>,
  \<open>FinalizedHeaderBlockRoot\<close> and \<open>BlockRootsTree\<close>, whatever else the payload holds is the
  extension \<open>'z\<close> of the record.\<close>

type_synonym Hash = "byte list"

record ScaleBeaconHeader =
  Slot :: u64

record UpdatePayload =
  FinalizedHeader :: ScaleBeaconHeader

record ('pl, 'tr) ScaleUpdate =
  Payload :: 'pl
  FinalizedHeaderBlockRoot :: Hash
  BlockRootsTree :: 'tr

text \<open>\<open>cache.Proof\<close>, built at lines 222-226.\<close>

record 'tr Proof =
  FinalizedBlockRoot :: Hash
  BlockRootsTree :: 'tr
  Slot :: u64

text \<open>The syncer: the result of each fetch (a fetch is made at most once in a run, with the
  arguments shown) and the pure period computation.\<close>

record ('cp, 'z, 'hu, 'tr) Syncer =
  GetCheckpoint :: "Error + 'cp"
  GetSyncCommitteePeriodUpdate :: "u64 \<Rightarrow> Error + ('z UpdatePayload_scheme, 'tr) ScaleUpdate"
  GetFinalizedUpdate :: "Error + ('z UpdatePayload_scheme, 'tr) ScaleUpdate"
  GetNextHeaderUpdateBySlotWithAncestryProof :: "u64 \<Rightarrow> 'tr Proof \<Rightarrow> Error + 'hu"
  ComputeSyncPeriodAtSlot :: "u64 \<Rightarrow> u64"

subsection \<open>Everything outside the file\<close>

record ('cp, 'z, 'hu, 'tr) World =
  ReadInConfig :: "string \<Rightarrow> Error option"
  Unmarshal :: "Error + Config"
  New :: "string \<Rightarrow> u64 \<Rightarrow> u64 \<Rightarrow> u64 \<Rightarrow> ActiveSpec \<Rightarrow> ('cp, 'z, 'hu, 'tr) Syncer"
  CheckPoint_ToJSON :: "'cp \<Rightarrow> CheckPoint"
  Update_ToJSON :: "'z UpdatePayload_scheme \<Rightarrow> Update"
  HeaderUpdate_ToJSON :: "'hu \<Rightarrow> HeaderUpdate"
  EncodeToBytes :: "'cp \<Rightarrow> byte list \<times> Error option"
  MarshalIndent :: "JSONData \<Rightarrow> Error + string"
  OpenFile :: "string \<Rightarrow> Error option"
  Write :: "string \<Rightarrow> string \<Rightarrow> nat \<times> Error option"
  RenderFile :: "string \<Rightarrow> Data \<Rightarrow> string \<times> Error option"

subsection \<open>Effects\<close>

datatype 'tr Event =
  Info string "(string \<times> string) list"
| ErrorLog string Error
| Sleep nat
| Println string
| Call_GetCheckpoint
| Call_GetSyncCommitteePeriodUpdate u64
| Call_GetFinalizedUpdate
| Call_GetNextHeaderUpdateBySlotWithAncestryProof u64 "'tr Proof"
| Open string
| WriteTo string string
| Render string Data

record 'tr State =
  trace :: "'tr Event list"
  files :: "string \<rightharpoonup> string"

definition emit :: "'tr Event \<Rightarrow> 'tr State \<Rightarrow> 'tr State" where
  "emit e st = st\<lparr>trace := trace st @ [e]\<rparr>"

definition store :: "string \<Rightarrow> string \<Rightarrow> 'tr State \<Rightarrow> 'tr State" where
  "store path contents st = st\<lparr>files := (files st)(path \<mapsto> contents)\<rparr>"

subsection \<open>Constants (lines 78-82)\<close>

definition pathToBeaconBenchmarkData :: string where
  "pathToBeaconBenchmarkData = ''parachain/pallets/ethereum-beacon-client/src/benchmarking''"

definition pathToBenchmarkDataTemplate :: string where
  "pathToBenchmarkDataTemplate = ''parachain/templates/benchmark-fixtures.mustache''"

definition pathToBeaconTestFixtureFiles :: string where
  "pathToBeaconTestFixtureFiles = ''parachain/pallets/ethereum-beacon-client/tests/fixtures''"

subsection \<open>Writing files (lines 288-324)\<close>

text \<open>\<open>os.OpenFile\<close> with \<open>O_RDWR|O_CREATE|O_TRUNC\<close> leaves an empty file when it succeeds;
  \<open>f.Write\<close> reports how many bytes it wrote and an error if it wrote fewer than given.\<close>

definition writeFile ::
  "('cp, 'z, 'hu, 'tr) World \<Rightarrow> string \<Rightarrow> string \<Rightarrow> 'tr State \<Rightarrow> Error option \<times> 'tr State" where
  "writeFile w path contents st =
     (case OpenFile w path of
        Some err \<Rightarrow> (Some (Errorf ''create file: %w'' [] (Some err)), emit (Open path) st)
      | None \<Rightarrow>
          (let st1 = store path [] (emit (Open path) st) in
           case Write w path contents of
             (n, Some err) \<Rightarrow>
               (Some (Errorf ''write to file: %w'' [] (Some err)),
                store path (take n contents) (emit (WriteTo path (take n contents)) st1))
           | (n, None) \<Rightarrow>
               (None, store path contents (emit (WriteTo path contents) st1))))"

text \<open>Line 289 drops the error of \<open>json.MarshalIndent\<close>, which returns no bytes with it.\<close>

definition jsonBytes :: "('cp, 'z, 'hu, 'tr) World \<Rightarrow> JSONData \<Rightarrow> string" where
  "jsonBytes w data = (case MarshalIndent w data of Inl err \<Rightarrow> [] | Inr bytes \<Rightarrow> bytes)"

definition fixtureFile :: "string \<Rightarrow> string" where
  "fixtureFile filename = pathToBeaconTestFixtureFiles @ ''/'' @ filename"

definition benchmarkFile :: "string \<Rightarrow> string" where
  "benchmarkFile filename = pathToBeaconBenchmarkData @ ''/'' @ filename"

definition writeJSONToFile ::
  "('cp, 'z, 'hu, 'tr) World \<Rightarrow> JSONData \<Rightarrow> string \<Rightarrow> 'tr State \<Rightarrow> Error option \<times> 'tr State" where
  "writeJSONToFile w data filename st =
     (let file = jsonBytes w data
      in writeFile w (fixtureFile filename) file st)"

definition writeBenchmarkDataFile ::
  "('cp, 'z, 'hu, 'tr) World \<Rightarrow> string \<Rightarrow> string \<Rightarrow> 'tr State \<Rightarrow> Error option \<times> 'tr State" where
  "writeBenchmarkDataFile w filename fileContents st =
     writeFile w (benchmarkFile filename) fileContents st"

subsection \<open>\<open>hex.EncodeToString\<close>\<close>

definition hextable :: string where
  "hextable = ''0123456789abcdef''"

definition EncodeToString :: "byte list \<Rightarrow> string" where
  "EncodeToString src =
     concat (map (\<lambda>v. [hextable ! unat (drop_bit 4 v), hextable ! unat (v AND 0x0f)]) src)"

subsection \<open>Resolving the spec and connecting (lines 86-112 and 142-169)\<close>

text \<open>Both commands begin with the same statements: read the \<open>spec\<close> flag, resolve it, read
  the \<open>url\<close> flag (its error is not looked at), load the relay configuration and build the
  syncer from the settings of the spec.\<close>

definition connect ::
  "('cp, 'z, 'hu, 'tr) World \<Rightarrow> Command
     \<Rightarrow> Error + (ActiveSpec \<times> string \<times> ('cp, 'z, 'hu, 'tr) Syncer)" where
  "connect w cmd =
     (case GetString cmd ''spec'' of
        (spec, Some err) \<Rightarrow> Inl (Errorf ''get active spec: %w'' [] (Some err))
      | (spec, None) \<Rightarrow>
     (case ToSpec spec of
        Inl err \<Rightarrow> Inl (Errorf ''get spec: %w'' [] (Some err))
      | Inr activeSpec \<Rightarrow>
     (let endpoint = fst (GetString cmd ''url'') in
      case ReadInConfig w ''core/packages/test/config/beacon-relay.json'' of
        Some err \<Rightarrow> Inl err
      | None \<Rightarrow>
     (case Unmarshal w of
        Inl err \<Rightarrow> Inl err
      | Inr conf \<Rightarrow>
     (let specSettings = GetSpecSettingsBySpec conf activeSpec
      in Inr (activeSpec, endpoint,
              New w endpoint (SlotsInEpoch specSettings)
                (EpochsPerSyncCommitteePeriod specSettings)
                (MaxSlotsPerHistoricalRoot specSettings) activeSpec))))))"

subsection \<open>\<open>generateBeaconCheckpoint\<close> (lines 84-138)\<close>

text \<open>The closure of lines 85-132. The flag is defined as \<open>export-json\<close> (line 63) and read
  as \<open>export_json\<close> (line 118); the error of that read and the error of
  \<open>types.EncodeToBytes\<close> are not looked at.\<close>

definition generateBeaconCheckpoint_body ::
  "('cp, 'z, 'hu, 'tr) World \<Rightarrow> Command \<Rightarrow> 'tr State \<Rightarrow> Error option \<times> 'tr State" where
  "generateBeaconCheckpoint_body w cmd st =
     (case connect w cmd of
        Inl err \<Rightarrow> (Some err, st)
      | Inr (activeSpec, endpoint, s) \<Rightarrow>
     (let st1 = emit Call_GetCheckpoint st in
      case GetCheckpoint s of
        Inl err \<Rightarrow> (Some (Errorf ''get initial sync: %w'' [] (Some err)), st1)
      | Inr checkPointScale \<Rightarrow>
     (let exportJson = fst (GetBool cmd ''export_json'') in
      case (if exportJson
            then writeJSONToFile w (CheckPointJSON (CheckPoint_ToJSON w checkPointScale))
                   ''dump-initial-checkpoint.json'' st1
            else (None, st1)) of
        (Some err, st2) \<Rightarrow> (Some (Errorf ''write initial sync to file: %w'' [] (Some err)), st2)
      | (None, st2) \<Rightarrow>
     (let checkPointBytes = fst (EncodeToBytes w checkPointScale);
          checkPointCallIndex = ''0x3200'';
          checkPointUpdateCall = checkPointCallIndex @ EncodeToString checkPointBytes
      in (None, emit (Println checkPointUpdateCall) st2)))))"

text \<open>The command function: whatever the closure returns, the function returns \<open>nil\<close>.\<close>

definition generateBeaconCheckpoint ::
  "('cp, 'z, 'hu, 'tr) World \<Rightarrow> Command \<Rightarrow> 'tr State \<Rightarrow> Error option \<times> 'tr State" where
  "generateBeaconCheckpoint w cmd st =
     (case generateBeaconCheckpoint_body w cmd st of
        (Some err, st') \<Rightarrow> (None, emit (ErrorLog ''error generating beacon checkpoint'' err) st')
      | (None, st') \<Rightarrow> (None, st'))"

subsection \<open>\<open>generateBeaconData\<close> (lines 140-286)\<close>

text \<open>The four fixture names are built alike:
  \<open>fmt.Sprintf("<stem>.%s.json", activeSpec.ToString())\<close>.\<close>

definition fixtureName :: "string \<Rightarrow> ActiveSpec \<Rightarrow> string" where
  "fixtureName stem activeSpec = stem @ ''.'' @ ToString activeSpec @ ''.json''"


text \<open>The closure of lines 141-280 is one straight line of stages, each ending the run
  with an error or handing over to the next. The stages are defined last first.\<close>

text \<open>Lines 242-279: the benchmark file, for mainnet only. The error of
  \<open>mustache.RenderFile\<close> (line 263) is overwritten at line 271 before it is looked at.\<close>

definition benchmarkStage ::
  "('cp, 'z, 'hu, 'tr) World \<Rightarrow> ActiveSpec \<Rightarrow> CheckPoint \<Rightarrow> Update \<Rightarrow> Update \<Rightarrow> HeaderUpdate
     \<Rightarrow> 'tr State \<Rightarrow> Error option \<times> 'tr State" where
  "benchmarkStage w activeSpec initialSync syncCommitteeUpdate finalizedUpdate headerUpdate st =
     (if IsMainnet activeSpec then
        (let st1 = emit (Info ''now updating benchmarking data files'' []) st;
             data = \<lparr>CheckpointUpdate = CheckPoint_RemoveLeadingZeroHashes initialSync,
                     SyncCommitteeUpdate = Update_RemoveLeadingZeroHashes syncCommitteeUpdate,
                     FinalizedHeaderUpdate = Update_RemoveLeadingZeroHashes finalizedUpdate,
                     HeaderUpdate = HeaderUpdate_RemoveLeadingZeroHashes headerUpdate\<rparr>;
             st2 = emit (Info ''rendering file using mustache''
                           [(''location'', pathToBeaconTestFixtureFiles),
                            (''spec'', ToString activeSpec)]) st1;
             rendered = fst (RenderFile w pathToBenchmarkDataTemplate data);
             st3 = emit (Render pathToBenchmarkDataTemplate data) st2;
             filename = ''fixtures.rs'';
             st4 = emit (Info ''writing result file''
                           [(''location'', pathToBeaconBenchmarkData),
                            (''filename'', filename)]) st3
         in case writeBenchmarkDataFile w filename rendered st4 of
              (Some err, st5) \<Rightarrow> (Some err, st5)
            | (None, st5) \<Rightarrow> (None, emit (Info ''done'' [(''spec'', ToString activeSpec)]) st5))
      else (None, emit (Info ''done'' [(''spec'', ToString activeSpec)]) st))"

text \<open>Lines 221-240: the header update for the slot two before the finalized one.\<close>

definition headerUpdateStage ::
  "('cp, 'z, 'hu, 'tr) World \<Rightarrow> ActiveSpec \<Rightarrow> ('cp, 'z, 'hu, 'tr) Syncer \<Rightarrow> CheckPoint
     \<Rightarrow> Update \<Rightarrow> Update \<Rightarrow> ('z UpdatePayload_scheme, 'tr) ScaleUpdate
     \<Rightarrow> 'tr State \<Rightarrow> Error option \<times> 'tr State" where
  "headerUpdateStage w activeSpec s initialSync syncCommitteeUpdate finalizedUpdate
       finalizedUpdateScale st =
     (let blockUpdateSlot =
            ScaleBeaconHeader.Slot (UpdatePayload.FinalizedHeader (Payload finalizedUpdateScale)) - 2;
          checkPoint =
            \<lparr>Proof.FinalizedBlockRoot = FinalizedHeaderBlockRoot finalizedUpdateScale,
             Proof.BlockRootsTree = ScaleUpdate.BlockRootsTree finalizedUpdateScale,
             Proof.Slot =
               ScaleBeaconHeader.Slot
                 (UpdatePayload.FinalizedHeader (Payload finalizedUpdateScale))\<rparr>;
          st1 = emit (Call_GetNextHeaderUpdateBySlotWithAncestryProof blockUpdateSlot checkPoint) st
      in case GetNextHeaderUpdateBySlotWithAncestryProof s blockUpdateSlot checkPoint of
           Inl err \<Rightarrow> (Some (Errorf ''get header update: %w'' [] (Some err)), st1)
         | Inr headerUpdateScale \<Rightarrow>
     (let headerUpdate = HeaderUpdate_ToJSON w headerUpdateScale
      in case writeJSONToFile w (HeaderUpdateJSON headerUpdate)
                (fixtureName ''execution-header-update'' activeSpec) st1 of
           (Some err, st2) \<Rightarrow> (Some (Errorf ''write block update to file: %w'' [] (Some err)), st2)
         | (None, st2) \<Rightarrow>
             benchmarkStage w activeSpec initialSync syncCommitteeUpdate finalizedUpdate
               headerUpdate (emit (Info ''created header update file'' []) st2)))"

text \<open>Lines 201-219: the finalized update, its fixture and the two consistency checks.\<close>

definition finalizedUpdateStage ::
  "('cp, 'z, 'hu, 'tr) World \<Rightarrow> ActiveSpec \<Rightarrow> ('cp, 'z, 'hu, 'tr) Syncer \<Rightarrow> CheckPoint
     \<Rightarrow> u64 \<Rightarrow> u64 \<Rightarrow> Update \<Rightarrow> 'tr State \<Rightarrow> Error option \<times> 'tr State" where
  "finalizedUpdateStage w activeSpec s initialSync initialSyncHeaderSlot initialSyncPeriod
       syncCommitteeUpdate st =
     (let st1 = emit Call_GetFinalizedUpdate
                  (emit (Info ''downloading beacon state, this can take a few minutes...'' []) st)
      in case GetFinalizedUpdate s of
           Inl err \<Rightarrow> (Some (Errorf ''get finalized header update: %w'' [] (Some err)), st1)
         | Inr finalizedUpdateScale \<Rightarrow>
     (let finalizedUpdate = Update_ToJSON w (Payload finalizedUpdateScale)
      in case writeJSONToFile w (UpdateJSON finalizedUpdate)
                (fixtureName ''finalized-header-update'' activeSpec) st1 of
           (Some err, st2) \<Rightarrow>
             (Some (Errorf ''write finalized header update to file: %w'' [] (Some err)), st2)
         | (None, st2) \<Rightarrow>
     (let st3 = emit (Info ''created finalized header update file'' []) st2;
          finalizedUpdatePeriod = ComputeSyncPeriodAtSlot s (SignatureSlot finalizedUpdate)
      in if initialSyncPeriod \<noteq> finalizedUpdatePeriod then
           (Some (Errorf ''initialSyncPeriod %d should be consistent with finalizedUpdatePeriod %d''
                    [initialSyncPeriod, finalizedUpdatePeriod] None), st3)
         else if BeaconHeader.Slot (AttestedHeader finalizedUpdate) \<le> initialSyncHeaderSlot then
           (Some (Errorf ''AttestedHeader slot %d should be greater than initialSyncHeaderSlot %d''
                    [BeaconHeader.Slot (AttestedHeader finalizedUpdate), initialSyncHeaderSlot]
                    None), st3)
         else headerUpdateStage w activeSpec s initialSync syncCommitteeUpdate finalizedUpdate
                finalizedUpdateScale st3)))"

text \<open>Lines 189-199: the sync committee update of the period and its fixture.\<close>

definition syncCommitteeStage ::
  "('cp, 'z, 'hu, 'tr) World \<Rightarrow> ActiveSpec \<Rightarrow> ('cp, 'z, 'hu, 'tr) Syncer \<Rightarrow> CheckPoint
     \<Rightarrow> u64 \<Rightarrow> u64 \<Rightarrow> u64 \<Rightarrow> 'tr State \<Rightarrow> Error option \<times> 'tr State" where
  "syncCommitteeStage w activeSpec s initialSync initialSyncHeaderSlot initialSyncPeriod
       syncCommitteePeriod st =
     (let st1 = emit (Call_GetSyncCommitteePeriodUpdate syncCommitteePeriod) st
      in case GetSyncCommitteePeriodUpdate s syncCommitteePeriod of
           Inl err \<Rightarrow> (Some (Errorf ''get sync committee update: %w'' [] (Some err)), st1)
         | Inr syncCommitteeUpdateScale \<Rightarrow>
     (let syncCommitteeUpdate = Update_ToJSON w (Payload syncCommitteeUpdateScale)
      in case writeJSONToFile w (UpdateJSON syncCommitteeUpdate)
                (fixtureName ''sync-committee-update'' activeSpec) st1 of
           (Some err, st2) \<Rightarrow>
             (Some (Errorf ''write sync committee update to file: %w'' [] (Some err)), st2)
         | (None, st2) \<Rightarrow>
             finalizedUpdateStage w activeSpec s initialSync initialSyncHeaderSlot
               initialSyncPeriod syncCommitteeUpdate
               (emit (Info ''created sync committee update file'' []) st2)))"

text \<open>Lines 171-187: the checkpoint, its fixture, the wait and the period check. The error
  of the fixture write (line 176) is assigned and not looked at.\<close>

definition checkpointStage ::
  "('cp, 'z, 'hu, 'tr) World \<Rightarrow> ActiveSpec \<Rightarrow> ('cp, 'z, 'hu, 'tr) Syncer
     \<Rightarrow> 'tr State \<Rightarrow> Error option \<times> 'tr State" where
  "checkpointStage w activeSpec s st =
     (let st1 = emit Call_GetCheckpoint st
      in case GetCheckpoint s of
           Inl err \<Rightarrow> (Some (Errorf ''get initial sync: %w'' [] (Some err)), st1)
         | Inr initialSyncScale \<Rightarrow>
     (let initialSync = CheckPoint_ToJSON w initialSyncScale;
          st2 = snd (writeJSONToFile w (CheckPointJSON initialSync)
                       (fixtureName ''initial-checkpoint'' activeSpec) st1);
          initialSyncHeaderSlot = BeaconHeader.Slot (CheckPoint.Header initialSync);
          initialSyncPeriod = ComputeSyncPeriodAtSlot s initialSyncHeaderSlot;
          st3 = emit (Info ''created initial sync file'' []) st2;
          st4 = emit (Info ''downloading beacon state, this can take a few minutes...'' []) st3;
          st5 = emit (Sleep (6 * 5)) st4;
          syncCommitteePeriod = ComputeSyncPeriodAtSlot s (initialSyncHeaderSlot + 5)
      in if initialSyncPeriod \<noteq> syncCommitteePeriod then
           (Some (Errorf ''initialSyncPeriod %d should be consistent with syncCommitteePeriod %d''
                    [initialSyncPeriod, syncCommitteePeriod] None), st5)
         else syncCommitteeStage w activeSpec s initialSync initialSyncHeaderSlot
                initialSyncPeriod syncCommitteePeriod st5))"

definition generateBeaconData_body ::
  "('cp, 'z, 'hu, 'tr) World \<Rightarrow> Command \<Rightarrow> 'tr State \<Rightarrow> Error option \<times> 'tr State" where
  "generateBeaconData_body w cmd st =
     (case connect w cmd of
        Inl err \<Rightarrow> (Some err, st)
      | Inr (activeSpec, endpoint, s) \<Rightarrow>
          checkpointStage w activeSpec s
            (emit (Info ''connecting to beacon API''
                     [(''spec'', ToString activeSpec), (''endpoint'', endpoint)]) st))"


text \<open>Modelled from the spec: \<open>canonicalize(artifact)\<close> of section 4.4 is the pass on whichever
  of the three artifact types it is given, and its hash-valued fields are those listed
  there.\<close>

fun canonicalize :: "JSONData \<Rightarrow> JSONData" where
  "canonicalize (CheckPointJSON p) = CheckPointJSON (CheckPoint_RemoveLeadingZeroHashes p)"
| "canonicalize (UpdateJSON u) = UpdateJSON (Update_RemoveLeadingZeroHashes u)"
| "canonicalize (HeaderUpdateJSON u) = HeaderUpdateJSON (HeaderUpdate_RemoveLeadingZeroHashes u)"

definition BeaconHeader_hashes :: "BeaconHeader \<Rightarrow> string list" where
  "BeaconHeader_hashes h = [ParentRoot h, StateRoot h, BodyRoot h]"

fun hashFields :: "JSONData \<Rightarrow> string list" where
  "hashFields (CheckPointJSON p) =
     BeaconHeader_hashes (CheckPoint.Header p) @ [CheckPoint.BlockRootsRoot p]
     @ CheckPoint.BlockRootsBranch p"
| "hashFields (UpdateJSON u) =
     BeaconHeader_hashes (AttestedHeader u)
     @ [SyncCommitteeBits (SyncAggregate u), SyncCommitteeSignature (SyncAggregate u)]
     @ BeaconHeader_hashes (Update.FinalizedHeader u) @ FinalityBranch u
     @ [Update.BlockRootsRoot u] @ Update.BlockRootsBranch u"
| "hashFields (HeaderUpdateJSON u) =
     BeaconHeader_hashes (HeaderUpdate.Header u) @ AncestryProof u
     @ [HeaderUpdate.FinalizedBlockRoot u] @ ExecutionBranch u"

text \<open>Modelled from the spec: a hash-valued field holds a hash as text, a string of lowercase
  hex digits, bare or behind the two-character prefix (section 4.4: removing the prefix
  leaves a bare lowercase hex string).\<close>

definition isHexString :: "string \<Rightarrow> bool" where
  "isHexString s = list_all (\<lambda>c. c \<in> set hextable) s"

definition isHash :: "string \<Rightarrow> bool" where
  "isHash s \<longleftrightarrow> isHexString s \<or> (take 2 s = ''0x'' \<and> isHexString (drop 2 s))"

section \<open>Observing a run\<close>

text \<open>A run starts with an empty trace over the files already on disk.\<close>

definition initialState :: "(string \<rightharpoonup> string) \<Rightarrow> 'tr State" where
  "initialState fs = \<lparr>trace = [], files = fs\<rparr>"

text \<open>Kinds of events, to pick out of a trace the calls and file operations of one kind.\<close>

fun isClientCall :: "'tr Event \<Rightarrow> bool" where
  "isClientCall Call_GetCheckpoint = True"
| "isClientCall (Call_GetSyncCommitteePeriodUpdate period) = True"
| "isClientCall Call_GetFinalizedUpdate = True"
| "isClientCall (Call_GetNextHeaderUpdateBySlotWithAncestryProof slot proof) = True"
| "isClientCall e = False"

fun isSyncCommitteeFetch :: "'tr Event \<Rightarrow> bool" where
  "isSyncCommitteeFetch (Call_GetSyncCommitteePeriodUpdate period) = True"
| "isSyncCommitteeFetch e = False"

fun isHeaderFetch :: "'tr Event \<Rightarrow> bool" where
  "isHeaderFetch (Call_GetNextHeaderUpdateBySlotWithAncestryProof slot proof) = True"
| "isHeaderFetch e = False"

fun isOpen :: "'tr Event \<Rightarrow> bool" where
  "isOpen (Open path) = True"
| "isOpen e = False"

fun isRender :: "'tr Event \<Rightarrow> bool" where
  "isRender (Render path data) = True"
| "isRender e = False"

fun isPrintln :: "'tr Event \<Rightarrow> bool" where
  "isPrintln (Println line) = True"
| "isPrintln e = False"

fun isErrorLog :: "'tr Event \<Rightarrow> bool" where
  "isErrorLog (ErrorLog message err) = True"
| "isErrorLog e = False"

text \<open>A file the world lets the command create and write in full.\<close>

definition writable :: "('cp, 'z, 'hu, 'tr) World \<Rightarrow> string \<Rightarrow> string \<Rightarrow> bool" where
  "writable w path contents \<longleftrightarrow> OpenFile w path = None \<and> snd (Write w path contents) = None"

definition checkpointSlot :: "('cp, 'z, 'hu, 'tr) World \<Rightarrow> 'cp \<Rightarrow> u64" where
  "checkpointSlot w initialSyncScale =
     BeaconHeader.Slot (CheckPoint.Header (CheckPoint_ToJSON w initialSyncScale))"

definition finalizedSlot :: "('z UpdatePayload_scheme, 'tr) ScaleUpdate \<Rightarrow> u64" where
  "finalizedSlot finalizedUpdateScale =
     ScaleBeaconHeader.Slot (UpdatePayload.FinalizedHeader (Payload finalizedUpdateScale))"

text \<open>What the world has to answer for a run of \<open>generateBeaconData\<close> to arrive at a line of
  the closure: at the period check of line 184 (the spec resolved, the checkpoint fetched);
  at the consistency checks of line 213 (the periods equal, the sync committee update
  fetched and its fixture written, the finalized update fetched and its fixture written);
  at the header update request of line 221 (both checks passed); at the mainnet gate of
  line 242 (the header update fetched and its fixture written).\<close>

definition reachesPeriodCheck ::
  "('cp, 'z, 'hu, 'tr) World \<Rightarrow> Command \<Rightarrow> ActiveSpec \<Rightarrow> string \<Rightarrow> ('cp, 'z, 'hu, 'tr) Syncer
     \<Rightarrow> 'cp \<Rightarrow> bool" where
  "reachesPeriodCheck w cmd activeSpec endpoint s initialSyncScale \<longleftrightarrow>
     connect w cmd = Inr (activeSpec, endpoint, s) \<and> GetCheckpoint s = Inr initialSyncScale"

definition reachesConsistencyChecks ::
  "('cp, 'z, 'hu, 'tr) World \<Rightarrow> Command \<Rightarrow> ActiveSpec \<Rightarrow> string \<Rightarrow> ('cp, 'z, 'hu, 'tr) Syncer
     \<Rightarrow> 'cp \<Rightarrow> ('z UpdatePayload_scheme, 'tr) ScaleUpdate
     \<Rightarrow> ('z UpdatePayload_scheme, 'tr) ScaleUpdate \<Rightarrow> bool" where
  "reachesConsistencyChecks w cmd activeSpec endpoint s initialSyncScale syncCommitteeUpdateScale
       finalizedUpdateScale \<longleftrightarrow>
     reachesPeriodCheck w cmd activeSpec endpoint s initialSyncScale
   \<and> ComputeSyncPeriodAtSlot s (checkpointSlot w initialSyncScale) =
       ComputeSyncPeriodAtSlot s (checkpointSlot w initialSyncScale + 5)
   \<and> GetSyncCommitteePeriodUpdate s
         (ComputeSyncPeriodAtSlot s (checkpointSlot w initialSyncScale + 5)) =
       Inr syncCommitteeUpdateScale
   \<and> writable w (fixtureFile (fixtureName ''sync-committee-update'' activeSpec))
         (jsonBytes w (UpdateJSON (Update_ToJSON w (Payload syncCommitteeUpdateScale))))
   \<and> GetFinalizedUpdate s = Inr finalizedUpdateScale
   \<and> writable w (fixtureFile (fixtureName ''finalized-header-update'' activeSpec))
         (jsonBytes w (UpdateJSON (Update_ToJSON w (Payload finalizedUpdateScale))))"

definition passesConsistencyChecks ::
  "('cp, 'z, 'hu, 'tr) World \<Rightarrow> ('cp, 'z, 'hu, 'tr) Syncer \<Rightarrow> 'cp
     \<Rightarrow> ('z UpdatePayload_scheme, 'tr) ScaleUpdate \<Rightarrow> bool" where
  "passesConsistencyChecks w s initialSyncScale finalizedUpdateScale \<longleftrightarrow>
     ComputeSyncPeriodAtSlot s (checkpointSlot w initialSyncScale) =
       ComputeSyncPeriodAtSlot s (SignatureSlot (Update_ToJSON w (Payload finalizedUpdateScale)))
   \<and> checkpointSlot w initialSyncScale <
       BeaconHeader.Slot (AttestedHeader (Update_ToJSON w (Payload finalizedUpdateScale)))"

definition headerProof :: "('z UpdatePayload_scheme, 'tr) ScaleUpdate \<Rightarrow> 'tr Proof" where
  "headerProof finalizedUpdateScale =
     \<lparr>Proof.FinalizedBlockRoot = FinalizedHeaderBlockRoot finalizedUpdateScale,
      Proof.BlockRootsTree = ScaleUpdate.BlockRootsTree finalizedUpdateScale,
      Proof.Slot = finalizedSlot finalizedUpdateScale\<rparr>"

definition reachesBenchmarkGate ::
  "('cp, 'z, 'hu, 'tr) World \<Rightarrow> Command \<Rightarrow> ActiveSpec \<Rightarrow> string \<Rightarrow> ('cp, 'z, 'hu, 'tr) Syncer
     \<Rightarrow> 'cp \<Rightarrow> ('z UpdatePayload_scheme, 'tr) ScaleUpdate
     \<Rightarrow> ('z UpdatePayload_scheme, 'tr) ScaleUpdate \<Rightarrow> 'hu \<Rightarrow> bool" where
  "reachesBenchmarkGate w cmd activeSpec endpoint s initialSyncScale syncCommitteeUpdateScale
       finalizedUpdateScale headerUpdateScale \<longleftrightarrow>
     reachesConsistencyChecks w cmd activeSpec endpoint s initialSyncScale
       syncCommitteeUpdateScale finalizedUpdateScale
   \<and> passesConsistencyChecks w s initialSyncScale finalizedUpdateScale
   \<and> GetNextHeaderUpdateBySlotWithAncestryProof s (finalizedSlot finalizedUpdateScale - 2)
         (headerProof finalizedUpdateScale) = Inr headerUpdateScale
   \<and> writable w (fixtureFile (fixtureName ''execution-header-update'' activeSpec))
         (jsonBytes w (HeaderUpdateJSON (HeaderUpdate_ToJSON w headerUpdateScale)))"

section \<open>A concrete beacon node\<close>

text \<open>A world to run the commands in: every file can be written, the node answers every
  request, and the sync period of a slot is the slot divided by the slots of a period
  (32 * 256 on mainnet). Its four parameters are the slot of the checkpoint and the attested,
  signature and finalized slots of the finalized update.\<close>

definition demoBeaconHeader :: "u64 \<Rightarrow> BeaconHeader" where
  "demoBeaconHeader slot =
     \<lparr>BeaconHeader.Slot = slot, ProposerIndex = 7, ParentRoot = ''0x11'',
      StateRoot = ''0x22'', BodyRoot = ''0x33''\<rparr>"

definition demoCheckPoint :: "u64 \<Rightarrow> CheckPoint" where
  "demoCheckPoint slot =
     \<lparr>CheckPoint.Header = demoBeaconHeader slot, CheckPoint.BlockRootsRoot = ''0x44'',
      CheckPoint.BlockRootsBranch = [''0x55'', ''0x66'']\<rparr>"

definition demoUpdate :: "u64 \<Rightarrow> u64 \<Rightarrow> u64 \<Rightarrow> Update" where
  "demoUpdate attested signature finalized =
     \<lparr>AttestedHeader = demoBeaconHeader attested,
      SyncAggregate = \<lparr>SyncCommitteeBits = ''0xff'', SyncCommitteeSignature = ''0x77''\<rparr>,
      SignatureSlot = signature,
      FinalizedHeader = demoBeaconHeader finalized,
      FinalityBranch = [''0x88''],
      Update.BlockRootsRoot = ''0x99'',
      Update.BlockRootsBranch = [''0xaa'']\<rparr>"

definition demoHeaderUpdate :: "u64 \<Rightarrow> HeaderUpdate" where
  "demoHeaderUpdate slot =
     \<lparr>HeaderUpdate.Header = demoBeaconHeader slot, AncestryProof = [''0xbb''],
      HeaderUpdate.FinalizedBlockRoot = ''0xcc'', ExecutionBranch = [''0xdd'']\<rparr>"

definition demoScaleUpdate :: "u64 \<Rightarrow> u64 \<Rightarrow> u64 \<Rightarrow> (Update UpdatePayload_scheme, nat) ScaleUpdate" where
  "demoScaleUpdate attested signature finalized =
     \<lparr>Payload = \<lparr>UpdatePayload.FinalizedHeader = \<lparr>ScaleBeaconHeader.Slot = finalized\<rparr>,
                  \<dots> = demoUpdate attested signature finalized\<rparr>,
      FinalizedHeaderBlockRoot = [0xab, 0xcd],
      ScaleUpdate.BlockRootsTree = 5\<rparr>"

definition demoSyncer :: "u64 \<Rightarrow> u64 \<Rightarrow> u64 \<Rightarrow> u64 \<Rightarrow> u64 \<Rightarrow> u64 \<Rightarrow> (CheckPoint, Update, HeaderUpdate, nat) Syncer" where
  "demoSyncer checkpoint attested signature finalized slotsInEpoch epochsPerPeriod =
     \<lparr>GetCheckpoint = Inr (demoCheckPoint checkpoint),
      GetSyncCommitteePeriodUpdate = (\<lambda>period. Inr (demoScaleUpdate (checkpoint + 1) (checkpoint + 2) checkpoint)),
      GetFinalizedUpdate = Inr (demoScaleUpdate attested signature finalized),
      GetNextHeaderUpdateBySlotWithAncestryProof = (\<lambda>slot proof. Inr (demoHeaderUpdate slot)),
      ComputeSyncPeriodAtSlot = (\<lambda>slot. slot div (slotsInEpoch * epochsPerPeriod))\<rparr>"

definition demoConfig :: Config where
  "demoConfig activeSpec =
     (case activeSpec of
        Mainnet \<Rightarrow> \<lparr>SlotsInEpoch = 32, EpochsPerSyncCommitteePeriod = 256, MaxSlotsPerHistoricalRoot = 8192\<rparr>
      | Minimal \<Rightarrow> \<lparr>SlotsInEpoch = 8, EpochsPerSyncCommitteePeriod = 8, MaxSlotsPerHistoricalRoot = 64\<rparr>)"

definition demoMarshal :: "JSONData \<Rightarrow> string" where
  "demoMarshal data =
     (case data of
        CheckPointJSON c \<Rightarrow> ''checkpoint '' @ CheckPoint.BlockRootsRoot c
      | UpdateJSON u \<Rightarrow> ''update '' @ Update.BlockRootsRoot u
      | HeaderUpdateJSON h \<Rightarrow> ''header '' @ HeaderUpdate.FinalizedBlockRoot h)"

definition demoWorld :: "u64 \<Rightarrow> u64 \<Rightarrow> u64 \<Rightarrow> u64 \<Rightarrow> (CheckPoint, Update, HeaderUpdate, nat) World" where
  "demoWorld checkpoint attested signature finalized =
     \<lparr>ReadInConfig = (\<lambda>path. None),
      Unmarshal = Inr demoConfig,
      New = (\<lambda>endpoint slotsInEpoch epochsPerPeriod maxSlots activeSpec.
               demoSyncer checkpoint attested signature finalized slotsInEpoch epochsPerPeriod),
      CheckPoint_ToJSON = (\<lambda>c. c),
      Update_ToJSON = UpdatePayload.more,
      HeaderUpdate_ToJSON = (\<lambda>h. h),
      EncodeToBytes = (\<lambda>c. ([0x01, 0xab, 0xf0], None)),
      MarshalIndent = (\<lambda>data. Inr (demoMarshal data)),
      OpenFile = (\<lambda>path. None),
      Write = (\<lambda>path contents. (length contents, None)),
      RenderFile = (\<lambda>path data. (''rendered '' @ CheckPoint.BlockRootsRoot (CheckpointUpdate data), None))\<rparr>"


definition demoDataCmd :: "string \<Rightarrow> Command" where
  "demoDataCmd spec = withFlags generateBeaconDataCmd [(''spec'', StringValue spec)]"

text \<open>The checkpoint command as the operator starts it with only \<open>--spec\<close>, and a world
  in which the fixture of the initial checkpoint cannot be created and the benchmark
  template cannot be read.\<close>

definition demoCheckpointCmd :: "string \<Rightarrow> Command" where
  "demoCheckpointCmd spec = withFlags generateBeaconCheckpointCmd [(''spec'', StringValue spec)]"

definition brokenWorld :: "(CheckPoint, Update, HeaderUpdate, nat) World" where
  "brokenWorld =
     (demoWorld 900 1064 1065 1000)
       \<lparr>OpenFile :=
          (\<lambda>path. if path = fixtureFile (fixtureName ''initial-checkpoint'' Mainnet)
                   then Some (ExternalError ''permission denied'') else None),
        RenderFile := (\<lambda>path data. ([], Some (ExternalError ''no such file or directory'')))\<rparr>"



section \<open>Properties\<close>

subsection \<open>Traces and files of the building blocks\<close>

lemma trace_emit [simp]: "trace (emit e st) = trace st @ [e]"
  by (simp add: emit_def)

lemma files_emit [simp]: "files (emit e st) = files st"
  by (simp add: emit_def)

lemma trace_store [simp]: "trace (store p c st) = trace st"
  by (simp add: store_def)

lemma files_store [simp]: "files (store p c st) = (files st)(p \<mapsto> c)"
  by (simp add: store_def)

lemma filter_writeFile:
  assumes "\<And>e. P e \<Longrightarrow> isClientCall e"
  shows "filter P (trace (snd (writeFile w path c st))) = filter P (trace st)"
proof -
  have "\<not> P (Open path)" "\<And>d. \<not> P (WriteTo path d)"
    using assms by fastforce+
  then show ?thesis
    by (simp add: writeFile_def Let_def split: option.splits prod.splits)
qed

lemma opens_writeFile:
  "filter isOpen (trace (snd (writeFile w path c st))) = filter isOpen (trace st) @ [Open path]"
  by (simp add: writeFile_def Let_def split: option.splits prod.splits)

lemma files_writeFile_other:
  "q \<noteq> path \<Longrightarrow> files (snd (writeFile w path c st)) q = files st q"
  by (simp add: writeFile_def Let_def split: option.splits prod.splits)

lemma filter_benchmarkStage:
  assumes "\<And>e. P e \<Longrightarrow> isClientCall e"
  shows "filter P (trace (snd (benchmarkStage w a i sc fu hu st))) = filter P (trace st)"
proof -
  have no: "\<And>m f. \<not> P (Info m f)" "\<And>p d. \<not> P (Render p d)"
    using assms by fastforce+
  show ?thesis
    by (simp add: benchmarkStage_def writeBenchmarkDataFile_def Let_def case_prod_beta no
          filter_writeFile [OF assms] split: option.splits)
qed

lemma filter_headerUpdateStage:
  assumes "\<And>e. P e \<Longrightarrow> isClientCall e"
  shows "filter P (trace (snd (headerUpdateStage w a s i sc fu fus st))) =
         filter P (trace st) @
         filter P [Call_GetNextHeaderUpdateBySlotWithAncestryProof
            (ScaleBeaconHeader.Slot (UpdatePayload.FinalizedHeader (Payload fus)) - 2)
            \<lparr>Proof.FinalizedBlockRoot = FinalizedHeaderBlockRoot fus,
             Proof.BlockRootsTree = ScaleUpdate.BlockRootsTree fus,
             Proof.Slot = ScaleBeaconHeader.Slot (UpdatePayload.FinalizedHeader (Payload fus))\<rparr>]"
proof -
  have no: "\<And>m f. \<not> P (Info m f)"
    using assms by fastforce+
  show ?thesis
    by (simp add: headerUpdateStage_def writeJSONToFile_def Let_def case_prod_beta no
          filter_writeFile [OF assms] filter_benchmarkStage [OF assms] split: option.splits sum.splits)
qed

lemma filter_finalizedUpdateStage:
  assumes "\<And>e. P e \<Longrightarrow> isClientCall e"
      and "\<not> P Call_GetFinalizedUpdate"
      and "\<And>slot proof. \<not> P (Call_GetNextHeaderUpdateBySlotWithAncestryProof slot proof)"
  shows "filter P (trace (snd (finalizedUpdateStage w a s i sl p sc st))) = filter P (trace st)"
proof -
  have no: "\<And>m f. \<not> P (Info m f)"
    using assms by fastforce+
  show ?thesis
    by (simp add: finalizedUpdateStage_def writeJSONToFile_def Let_def case_prod_beta no assms(2,3)
          filter_writeFile [OF assms(1)] filter_headerUpdateStage [OF assms(1)] split: option.splits sum.splits)
qed

lemma isSyncCommitteeFetch_call: "isSyncCommitteeFetch e \<Longrightarrow> isClientCall e"
  by (cases e) simp_all

lemma isHeaderFetch_call: "isHeaderFetch e \<Longrightarrow> isClientCall e"
  by (cases e) simp_all

lemma syncFetches_finalizedUpdateStage:
  "filter isSyncCommitteeFetch (trace (snd (finalizedUpdateStage w a s i sl p sc st))) =
   filter isSyncCommitteeFetch (trace st)"
  by (rule filter_finalizedUpdateStage) (simp_all add: isSyncCommitteeFetch_call)

lemma syncFetches_syncCommitteeStage:
  "filter isSyncCommitteeFetch (trace (snd (syncCommitteeStage w a s i sl p q st))) =
   filter isSyncCommitteeFetch (trace st) @ [Call_GetSyncCommitteePeriodUpdate q]"
  by (simp add: syncCommitteeStage_def writeJSONToFile_def Let_def case_prod_beta
        filter_writeFile [OF isSyncCommitteeFetch_call] syncFetches_finalizedUpdateStage
      split: option.splits sum.splits)

lemma connect_spec:
  "connect w cmd = Inr (activeSpec, endpoint, s) \<Longrightarrow>
   generateBeaconData_body w cmd st =
     checkpointStage w activeSpec s
       (emit (Info ''connecting to beacon API''
                [(''spec'', ToString activeSpec), (''endpoint'', endpoint)]) st)"
  by (simp add: generateBeaconData_body_def)

lemma writeFile_writable:
  "writable w path c \<Longrightarrow>
   writeFile w path c st =
     (None, store path c (emit (WriteTo path c) (store path [] (emit (Open path) st))))"
  by (cases "Write w path c") (simp add: writable_def writeFile_def Let_def)

lemma headerFetches_headerUpdateStage:
  "filter isHeaderFetch (trace (snd (headerUpdateStage w a s i sc fu fus st))) =
   filter isHeaderFetch (trace st) @
   [Call_GetNextHeaderUpdateBySlotWithAncestryProof (finalizedSlot fus - 2) (headerProof fus)]"
  by (simp add: filter_headerUpdateStage [OF isHeaderFetch_call] finalizedSlot_def headerProof_def)

lemma run_to_finalizedUpdateStage:
  assumes "reachesConsistencyChecks w cmd activeSpec endpoint s cps scu fus"
  shows "\<exists>st'. generateBeaconData_body w cmd (initialState fs) =
           finalizedUpdateStage w activeSpec s (CheckPoint_ToJSON w cps) (checkpointSlot w cps)
             (ComputeSyncPeriodAtSlot s (checkpointSlot w cps)) (Update_ToJSON w (Payload scu)) st'
         \<and> filter isHeaderFetch (trace st') = []"
proof -
  have c: "connect w cmd = Inr (activeSpec, endpoint, s)" and g: "GetCheckpoint s = Inr cps"
    and p: "ComputeSyncPeriodAtSlot s (checkpointSlot w cps) =
            ComputeSyncPeriodAtSlot s (checkpointSlot w cps + 5)"
    and u: "GetSyncCommitteePeriodUpdate s (ComputeSyncPeriodAtSlot s (checkpointSlot w cps + 5)) =
            Inr scu"
    and wr: "writable w (fixtureFile (fixtureName ''sync-committee-update'' activeSpec))
              (jsonBytes w (UpdateJSON (Update_ToJSON w (Payload scu))))"
    using assms by (simp_all add: reachesConsistencyChecks_def reachesPeriodCheck_def)
  show ?thesis
    unfolding connect_spec [OF c] checkpointStage_def syncCommitteeStage_def Let_def
      writeJSONToFile_def
    using p u
    apply (simp add: g checkpointSlot_def [symmetric] writeFile_writable [OF wr])
    apply (rule exI, rule conjI, rule refl)
    apply (simp add: initialState_def filter_writeFile [OF isHeaderFetch_call])
    done
qed

lemma connect_demo:
  "connect (demoWorld c a g f) (demoDataCmd ''mainnet'') =
     Inr (Mainnet, ''http://127.0.0.1:9596'', demoSyncer c a g f 32 256)"
  by (simp add: connect_def demoDataCmd_def withFlags_def generateBeaconDataCmd_def GetString_def
        ToSpec_def demoWorld_def GetSpecSettingsBySpec_def demoConfig_def)

subsection \<open>The period check after the checkpoint\<close>

text \<open>
  C1. In a run of \<open>generateBeaconData\<close> that has fetched the checkpoint, with header slot
  \<open>S\<close>: if the sync period of \<open>S\<close> differs from the sync period of \<open>S + 5\<close>, the closure
  returns the period error naming both periods, the sync committee update is never
  requested, and the only file the run has touched is the fixture of the initial checkpoint;
  if the two periods are equal, the sync committee update of that period is requested
  (exactly once).
\<close>

theorem period_drift_aborts_before_sync_committee_fetch:
  assumes "reachesPeriodCheck w cmd activeSpec endpoint s initialSyncScale"
  shows "(let initialSyncHeaderSlot = checkpointSlot w initialSyncScale;
              initialSyncPeriod = ComputeSyncPeriodAtSlot s initialSyncHeaderSlot;
              syncCommitteePeriod = ComputeSyncPeriodAtSlot s (initialSyncHeaderSlot + 5);
              run = generateBeaconData_body w cmd (initialState fs)
          in (initialSyncPeriod \<noteq> syncCommitteePeriod \<longrightarrow>
                fst run =
                  Some (Errorf ''initialSyncPeriod %d should be consistent with syncCommitteePeriod %d''
                          [initialSyncPeriod, syncCommitteePeriod] None)
              \<and> filter isSyncCommitteeFetch (trace (snd run)) = []
              \<and> filter isOpen (trace (snd run)) =
                  [Open (fixtureFile (fixtureName ''initial-checkpoint'' activeSpec))]
              \<and> (\<forall>path. path \<noteq> fixtureFile (fixtureName ''initial-checkpoint'' activeSpec) \<longrightarrow>
                     files (snd run) path = fs path))
           \<and> (initialSyncPeriod = syncCommitteePeriod \<longrightarrow>
                filter isSyncCommitteeFetch (trace (snd run)) =
                  [Call_GetSyncCommitteePeriodUpdate syncCommitteePeriod]))"
proof -
  have c: "connect w cmd = Inr (activeSpec, endpoint, s)"
    and g: "GetCheckpoint s = Inr initialSyncScale"
    using assms by (simp_all add: reachesPeriodCheck_def)
  show ?thesis
    by (simp add: connect_spec [OF c] g checkpointStage_def Let_def writeJSONToFile_def
          checkpointSlot_def initialState_def filter_writeFile [OF isSyncCommitteeFetch_call]
          opens_writeFile files_writeFile_other syncFetches_syncCommitteeStage)
qed

theorem period_drift_aborts_before_sync_committee_fetch_witness:
  "reachesPeriodCheck (demoWorld 8190 1064 1065 1000) (demoDataCmd ''mainnet'') Mainnet
     ''http://127.0.0.1:9596'' (demoSyncer 8190 1064 1065 1000 32 256) (demoCheckPoint 8190)
   \<and> fst (generateBeaconData_body (demoWorld 8190 1064 1065 1000) (demoDataCmd ''mainnet'')
           (initialState Map.empty)) =
       Some (Errorf ''initialSyncPeriod %d should be consistent with syncCommitteePeriod %d''
               [0, 1] None)
   \<and> filter isSyncCommitteeFetch
       (trace (snd (generateBeaconData_body (demoWorld 8190 1064 1065 1000) (demoDataCmd ''mainnet'')
          (initialState Map.empty)))) = []
   \<and> reachesPeriodCheck (demoWorld 900 1064 1065 1000) (demoDataCmd ''mainnet'') Mainnet
     ''http://127.0.0.1:9596'' (demoSyncer 900 1064 1065 1000 32 256) (demoCheckPoint 900)
   \<and> filter isSyncCommitteeFetch
       (trace (snd (generateBeaconData_body (demoWorld 900 1064 1065 1000) (demoDataCmd ''mainnet'')
          (initialState Map.empty)))) = [Call_GetSyncCommitteePeriodUpdate 0]"
proof -
  have drift: "reachesPeriodCheck (demoWorld 8190 1064 1065 1000) (demoDataCmd ''mainnet'') Mainnet
     ''http://127.0.0.1:9596'' (demoSyncer 8190 1064 1065 1000 32 256) (demoCheckPoint 8190)"
    by (simp add: reachesPeriodCheck_def connect_demo) (simp add: demoSyncer_def)
  have steady: "reachesPeriodCheck (demoWorld 900 1064 1065 1000) (demoDataCmd ''mainnet'') Mainnet
     ''http://127.0.0.1:9596'' (demoSyncer 900 1064 1065 1000 32 256) (demoCheckPoint 900)"
    by (simp add: reachesPeriodCheck_def connect_demo) (simp add: demoSyncer_def)
  have p: "ComputeSyncPeriodAtSlot (demoSyncer c a g f 32 256) slot = slot div 8192" for c a g f slot
    by (simp add: demoSyncer_def)
  have s: "checkpointSlot (demoWorld c a g f) (demoCheckPoint c) = c" for c a g f
    by (simp add: checkpointSlot_def demoWorld_def demoCheckPoint_def demoBeaconHeader_def)
  show ?thesis
    using drift steady period_drift_aborts_before_sync_committee_fetch [OF drift, of Map.empty] period_drift_aborts_before_sync_committee_fetch [OF steady, of Map.empty]
    by (simp add: Let_def p s)
qed

subsection \<open>The concrete beacon node\<close>

lemma connect_demo_minimal:
  "connect (demoWorld c a g f) (demoDataCmd ''minimal'') =
     Inr (Minimal, ''http://127.0.0.1:9596'', demoSyncer c a g f 8 8)"
  by (simp add: connect_def demoDataCmd_def withFlags_def generateBeaconDataCmd_def GetString_def
        ToSpec_def demoWorld_def GetSpecSettingsBySpec_def demoConfig_def)

lemma writable_demo: "writable (demoWorld c a g f) path contents"
  by (simp add: writable_def demoWorld_def)

lemma demo_period: "ComputeSyncPeriodAtSlot (demoSyncer c a g f x y) slot = slot div (x * y)"
  by (simp add: demoSyncer_def)

lemma demo_checkpointSlot: "checkpointSlot (demoWorld c a g f) (demoCheckPoint c') = c'"
  by (simp add: checkpointSlot_def demoWorld_def demoCheckPoint_def demoBeaconHeader_def)

lemma demo_reachesConsistencyChecks:
  assumes "c div 8192 = (c + 5) div 8192"
  shows "reachesConsistencyChecks (demoWorld c a g f) (demoDataCmd ''mainnet'') Mainnet
           ''http://127.0.0.1:9596'' (demoSyncer c a g f 32 256) (demoCheckPoint c)
           (demoScaleUpdate (c + 1) (c + 2) c) (demoScaleUpdate a g f)"
  using assms
  by (simp add: reachesConsistencyChecks_def reachesPeriodCheck_def connect_demo writable_demo
        demo_period demo_checkpointSlot)
     (simp add: demoSyncer_def)

lemma demo_finalizedUpdate:
  "Update_ToJSON (demoWorld c a g f) (Payload (demoScaleUpdate a' g' f')) = demoUpdate a' g' f'"
  by (simp add: demoWorld_def demoScaleUpdate_def)

lemma demo_slots:
  "SignatureSlot (demoUpdate a g f) = g"
  "BeaconHeader.Slot (AttestedHeader (demoUpdate a g f)) = a"
  "finalizedSlot (demoScaleUpdate a g f) = f"
  by (simp_all add: demoUpdate_def demoBeaconHeader_def finalizedSlot_def demoScaleUpdate_def)

lemma demo_passesConsistencyChecks:
  assumes "c div 8192 = g div 8192" and "c < a"
  shows "passesConsistencyChecks (demoWorld c a g f) (demoSyncer c a g f 32 256) (demoCheckPoint c)
           (demoScaleUpdate a g f)"
  using assms
  by (simp add: passesConsistencyChecks_def demo_period demo_checkpointSlot demo_finalizedUpdate
        demo_slots)

subsection \<open>The consistency checks on the finalized update\<close>

text \<open>
  C2. In a run of \<open>generateBeaconData\<close> that reaches the consistency checks of line 213 (the
  finalized update was fetched and its fixture written): if the sync period of the update's
  signature slot differs from the period of the checkpoint, or the attested header's slot is
  not greater than the checkpoint's header slot, the closure returns the error that names
  the two values compared and the header update is never requested; if both checks pass,
  the header update is requested.
\<close>

theorem finalized_update_consistency_checks:
  assumes "reachesConsistencyChecks w cmd activeSpec endpoint s initialSyncScale
             syncCommitteeUpdateScale finalizedUpdateScale"
  shows "(let finalizedUpdate = Update_ToJSON w (Payload finalizedUpdateScale);
              initialSyncHeaderSlot = checkpointSlot w initialSyncScale;
              initialSyncPeriod = ComputeSyncPeriodAtSlot s initialSyncHeaderSlot;
              finalizedUpdatePeriod = ComputeSyncPeriodAtSlot s (SignatureSlot finalizedUpdate);
              attestedSlot = BeaconHeader.Slot (AttestedHeader finalizedUpdate);
              run = generateBeaconData_body w cmd (initialState fs)
          in (initialSyncPeriod \<noteq> finalizedUpdatePeriod \<longrightarrow>
                fst run =
                  Some (Errorf ''initialSyncPeriod %d should be consistent with finalizedUpdatePeriod %d''
                          [initialSyncPeriod, finalizedUpdatePeriod] None)
              \<and> filter isHeaderFetch (trace (snd run)) = [])
           \<and> (initialSyncPeriod = finalizedUpdatePeriod \<and> attestedSlot \<le> initialSyncHeaderSlot \<longrightarrow>
                fst run =
                  Some (Errorf ''AttestedHeader slot %d should be greater than initialSyncHeaderSlot %d''
                          [attestedSlot, initialSyncHeaderSlot] None)
              \<and> filter isHeaderFetch (trace (snd run)) = [])
           \<and> (initialSyncPeriod = finalizedUpdatePeriod \<and> initialSyncHeaderSlot < attestedSlot \<longrightarrow>
                (\<exists>slot proof. filter isHeaderFetch (trace (snd run)) =
                   [Call_GetNextHeaderUpdateBySlotWithAncestryProof slot proof])))"
proof -
  obtain st' where run:
    "generateBeaconData_body w cmd (initialState fs) =
       finalizedUpdateStage w activeSpec s (CheckPoint_ToJSON w initialSyncScale)
         (checkpointSlot w initialSyncScale)
         (ComputeSyncPeriodAtSlot s (checkpointSlot w initialSyncScale))
         (Update_ToJSON w (Payload syncCommitteeUpdateScale)) st'"
    and quiet: "filter isHeaderFetch (trace st') = []"
    using run_to_finalizedUpdateStage [OF assms] by blast
  have fetched: "GetFinalizedUpdate s = Inr finalizedUpdateScale"
    and written: "writable w (fixtureFile (fixtureName ''finalized-header-update'' activeSpec))
         (jsonBytes w (UpdateJSON (Update_ToJSON w (Payload finalizedUpdateScale))))"
    using assms by (simp_all add: reachesConsistencyChecks_def)
  show ?thesis
    by (auto simp add: run finalizedUpdateStage_def Let_def writeJSONToFile_def fetched
          writeFile_writable [OF written] quiet headerFetches_headerUpdateStage)
qed

theorem finalized_update_consistency_checks_witness:
  "reachesConsistencyChecks (demoWorld 900 1064 9000 1000) (demoDataCmd ''mainnet'') Mainnet
     ''http://127.0.0.1:9596'' (demoSyncer 900 1064 9000 1000 32 256) (demoCheckPoint 900)
     (demoScaleUpdate 901 902 900) (demoScaleUpdate 1064 9000 1000)
   \<and> fst (generateBeaconData_body (demoWorld 900 1064 9000 1000) (demoDataCmd ''mainnet'')
           (initialState Map.empty)) =
       Some (Errorf ''initialSyncPeriod %d should be consistent with finalizedUpdatePeriod %d''
               [0, 1] None)
   \<and> filter isHeaderFetch
       (trace (snd (generateBeaconData_body (demoWorld 900 1064 9000 1000) (demoDataCmd ''mainnet'')
          (initialState Map.empty)))) = []
   \<and> reachesConsistencyChecks (demoWorld 900 900 1065 1000) (demoDataCmd ''mainnet'') Mainnet
     ''http://127.0.0.1:9596'' (demoSyncer 900 900 1065 1000 32 256) (demoCheckPoint 900)
     (demoScaleUpdate 901 902 900) (demoScaleUpdate 900 1065 1000)
   \<and> fst (generateBeaconData_body (demoWorld 900 900 1065 1000) (demoDataCmd ''mainnet'')
           (initialState Map.empty)) =
       Some (Errorf ''AttestedHeader slot %d should be greater than initialSyncHeaderSlot %d''
               [900, 900] None)
   \<and> filter isHeaderFetch
       (trace (snd (generateBeaconData_body (demoWorld 900 900 1065 1000) (demoDataCmd ''mainnet'')
          (initialState Map.empty)))) = []
   \<and> reachesConsistencyChecks (demoWorld 900 1064 1065 1000) (demoDataCmd ''mainnet'') Mainnet
     ''http://127.0.0.1:9596'' (demoSyncer 900 1064 1065 1000 32 256) (demoCheckPoint 900)
     (demoScaleUpdate 901 902 900) (demoScaleUpdate 1064 1065 1000)
   \<and> (\<exists>slot proof. filter isHeaderFetch
       (trace (snd (generateBeaconData_body (demoWorld 900 1064 1065 1000) (demoDataCmd ''mainnet'')
          (initialState Map.empty)))) = [Call_GetNextHeaderUpdateBySlotWithAncestryProof slot proof])"
proof -
  have r1: "reachesConsistencyChecks (demoWorld 900 1064 9000 1000) (demoDataCmd ''mainnet'') Mainnet
     ''http://127.0.0.1:9596'' (demoSyncer 900 1064 9000 1000 32 256) (demoCheckPoint 900)
     (demoScaleUpdate 901 902 900) (demoScaleUpdate 1064 9000 1000)"
    using demo_reachesConsistencyChecks [of 900 1064 9000 1000] by simp
  have r2: "reachesConsistencyChecks (demoWorld 900 900 1065 1000) (demoDataCmd ''mainnet'') Mainnet
     ''http://127.0.0.1:9596'' (demoSyncer 900 900 1065 1000 32 256) (demoCheckPoint 900)
     (demoScaleUpdate 901 902 900) (demoScaleUpdate 900 1065 1000)"
    using demo_reachesConsistencyChecks [of 900 900 1065 1000] by simp
  have r3: "reachesConsistencyChecks (demoWorld 900 1064 1065 1000) (demoDataCmd ''mainnet'') Mainnet
     ''http://127.0.0.1:9596'' (demoSyncer 900 1064 1065 1000 32 256) (demoCheckPoint 900)
     (demoScaleUpdate 901 902 900) (demoScaleUpdate 1064 1065 1000)"
    using demo_reachesConsistencyChecks [of 900 1064 1065 1000] by simp
  show ?thesis
    using r1 r2 r3 finalized_update_consistency_checks [OF r1, of Map.empty] finalized_update_consistency_checks [OF r2, of Map.empty] finalized_update_consistency_checks [OF r3, of Map.empty]
    by (simp add: Let_def demo_period demo_checkpointSlot demo_finalizedUpdate demo_slots)
qed

subsection \<open>The header update request\<close>

lemma run_to_headerUpdateStage:
  assumes "reachesConsistencyChecks w cmd activeSpec endpoint s cps scu fus"
      and "passesConsistencyChecks w s cps fus"
  shows "\<exists>st'. generateBeaconData_body w cmd (initialState fs) =
           headerUpdateStage w activeSpec s (CheckPoint_ToJSON w cps) (Update_ToJSON w (Payload scu))
             (Update_ToJSON w (Payload fus)) fus st'
         \<and> filter isHeaderFetch (trace st') = []"
proof -
  obtain st' where run:
    "generateBeaconData_body w cmd (initialState fs) =
       finalizedUpdateStage w activeSpec s (CheckPoint_ToJSON w cps) (checkpointSlot w cps)
         (ComputeSyncPeriodAtSlot s (checkpointSlot w cps)) (Update_ToJSON w (Payload scu)) st'"
    and quiet: "filter isHeaderFetch (trace st') = []"
    using run_to_finalizedUpdateStage [OF assms(1)] by blast
  have fetched: "GetFinalizedUpdate s = Inr fus"
    and written: "writable w (fixtureFile (fixtureName ''finalized-header-update'' activeSpec))
         (jsonBytes w (UpdateJSON (Update_ToJSON w (Payload fus))))"
    using assms(1) by (simp_all add: reachesConsistencyChecks_def)
  have p: "ComputeSyncPeriodAtSlot s (checkpointSlot w cps) =
       ComputeSyncPeriodAtSlot s (SignatureSlot (Update_ToJSON w (Payload fus)))"
    and a: "\<not> BeaconHeader.Slot (AttestedHeader (Update_ToJSON w (Payload fus))) \<le> checkpointSlot w cps"
    using assms(2) by (simp_all add: passesConsistencyChecks_def not_le)
  show ?thesis
    unfolding run finalizedUpdateStage_def Let_def writeJSONToFile_def
    apply (simp add: fetched writeFile_writable [OF written] p [symmetric] a)
    apply (rule exI, rule conjI, rule refl)
    apply (simp add: quiet)
    done
qed

text \<open>
  C3. In a run of \<open>generateBeaconData\<close> whose finalized update passes the consistency
  checks, the header update is requested once, for the slot two below the finalized header's
  slot (998 for the finalized slot 1000) and with the proof made of the finalized update's
  block root, block-roots tree and finalized slot.
\<close>

theorem header_update_fetched_two_slots_before_finalized:
  assumes "reachesConsistencyChecks w cmd activeSpec endpoint s initialSyncScale
             syncCommitteeUpdateScale finalizedUpdateScale"
      and "passesConsistencyChecks w s initialSyncScale finalizedUpdateScale"
  shows "filter isHeaderFetch (trace (snd (generateBeaconData_body w cmd (initialState fs)))) =
           [Call_GetNextHeaderUpdateBySlotWithAncestryProof
              (finalizedSlot finalizedUpdateScale - 2)
              \<lparr>Proof.FinalizedBlockRoot = FinalizedHeaderBlockRoot finalizedUpdateScale,
               Proof.BlockRootsTree = ScaleUpdate.BlockRootsTree finalizedUpdateScale,
               Proof.Slot = finalizedSlot finalizedUpdateScale\<rparr>]
       \<and> (finalizedSlot finalizedUpdateScale = 1000 \<longrightarrow>
            finalizedSlot finalizedUpdateScale - 2 = 998)"
proof -
  obtain st' where run:
    "generateBeaconData_body w cmd (initialState fs) =
       headerUpdateStage w activeSpec s (CheckPoint_ToJSON w initialSyncScale)
         (Update_ToJSON w (Payload syncCommitteeUpdateScale))
         (Update_ToJSON w (Payload finalizedUpdateScale)) finalizedUpdateScale st'"
    and quiet: "filter isHeaderFetch (trace st') = []"
    using run_to_headerUpdateStage [OF assms] by blast
  show ?thesis
    by (simp add: run quiet headerFetches_headerUpdateStage headerProof_def)
qed

theorem header_update_fetched_two_slots_before_finalized_witness:
  "reachesConsistencyChecks (demoWorld 900 1064 1065 1000) (demoDataCmd ''mainnet'') Mainnet
     ''http://127.0.0.1:9596'' (demoSyncer 900 1064 1065 1000 32 256) (demoCheckPoint 900)
     (demoScaleUpdate 901 902 900) (demoScaleUpdate 1064 1065 1000)
   \<and> passesConsistencyChecks (demoWorld 900 1064 1065 1000) (demoSyncer 900 1064 1065 1000 32 256)
       (demoCheckPoint 900) (demoScaleUpdate 1064 1065 1000)
   \<and> filter isHeaderFetch
       (trace (snd (generateBeaconData_body (demoWorld 900 1064 1065 1000) (demoDataCmd ''mainnet'')
          (initialState Map.empty)))) =
       [Call_GetNextHeaderUpdateBySlotWithAncestryProof 998
          \<lparr>Proof.FinalizedBlockRoot = [0xab, 0xcd], Proof.BlockRootsTree = 5, Proof.Slot = 1000\<rparr>]"
proof -
  have r: "reachesConsistencyChecks (demoWorld 900 1064 1065 1000) (demoDataCmd ''mainnet'') Mainnet
     ''http://127.0.0.1:9596'' (demoSyncer 900 1064 1065 1000 32 256) (demoCheckPoint 900)
     (demoScaleUpdate 901 902 900) (demoScaleUpdate 1064 1065 1000)"
    using demo_reachesConsistencyChecks [of 900 1064 1065 1000] by simp
  have p: "passesConsistencyChecks (demoWorld 900 1064 1065 1000) (demoSyncer 900 1064 1065 1000 32 256)
       (demoCheckPoint 900) (demoScaleUpdate 1064 1065 1000)"
    by (rule demo_passesConsistencyChecks) simp_all
  show ?thesis
    using r p header_update_fetched_two_slots_before_finalized [OF r p, of Map.empty]
    by (simp add: demo_slots) (simp add: demoScaleUpdate_def)
qed

text \<open>
  C10. The subtraction is plain \<open>uint64\<close> arithmetic: when the finalized header's slot is
  below 2, the slot requested is the slot plus \<open>2^64 - 2\<close> (slot 1 gives \<open>2^64 - 1\<close>), and the
  request is made with it all the same.
\<close>

theorem header_update_target_slot_wraps_below_two:
  assumes "reachesConsistencyChecks w cmd activeSpec endpoint s initialSyncScale
             syncCommitteeUpdateScale finalizedUpdateScale"
      and "passesConsistencyChecks w s initialSyncScale finalizedUpdateScale"
      and "finalizedSlot finalizedUpdateScale < 2"
  shows "(\<exists>blockUpdateSlot checkPoint.
            filter isHeaderFetch (trace (snd (generateBeaconData_body w cmd (initialState fs)))) =
              [Call_GetNextHeaderUpdateBySlotWithAncestryProof blockUpdateSlot checkPoint]
          \<and> unat blockUpdateSlot = unat (finalizedSlot finalizedUpdateScale) + 2 ^ 64 - 2
          \<and> (finalizedSlot finalizedUpdateScale = 1 \<longrightarrow> unat blockUpdateSlot = 2 ^ 64 - 1))"
proof -
  obtain st' where run:
    "generateBeaconData_body w cmd (initialState fs) =
       headerUpdateStage w activeSpec s (CheckPoint_ToJSON w initialSyncScale)
         (Update_ToJSON w (Payload syncCommitteeUpdateScale))
         (Update_ToJSON w (Payload finalizedUpdateScale)) finalizedUpdateScale st'"
    and quiet: "filter isHeaderFetch (trace st') = []"
    using run_to_headerUpdateStage [OF assms(1,2)] by blast
  have wrap: "unat (finalizedSlot finalizedUpdateScale - 2) =
              unat (finalizedSlot finalizedUpdateScale) + 2 ^ 64 - 2"
    using assms(3) by (simp add: unat_sub_if_size word_less_nat_alt word_size)
  show ?thesis
    using wrap by (auto simp add: run quiet headerFetches_headerUpdateStage)
qed

theorem header_update_target_slot_wraps_below_two_witness:
  "reachesConsistencyChecks (demoWorld 900 1064 1065 1) (demoDataCmd ''mainnet'') Mainnet
     ''http://127.0.0.1:9596'' (demoSyncer 900 1064 1065 1 32 256) (demoCheckPoint 900)
     (demoScaleUpdate 901 902 900) (demoScaleUpdate 1064 1065 1)
   \<and> passesConsistencyChecks (demoWorld 900 1064 1065 1) (demoSyncer 900 1064 1065 1 32 256)
       (demoCheckPoint 900) (demoScaleUpdate 1064 1065 1)
   \<and> finalizedSlot (demoScaleUpdate 1064 1065 (1 :: u64) :: (Update UpdatePayload_scheme, nat) ScaleUpdate) < 2
   \<and> (\<exists>blockUpdateSlot checkPoint.
        filter isHeaderFetch
          (trace (snd (generateBeaconData_body (demoWorld 900 1064 1065 1) (demoDataCmd ''mainnet'')
             (initialState Map.empty)))) =
          [Call_GetNextHeaderUpdateBySlotWithAncestryProof blockUpdateSlot checkPoint]
        \<and> unat blockUpdateSlot = 18446744073709551615)"
proof -
  have r: "reachesConsistencyChecks (demoWorld 900 1064 1065 1) (demoDataCmd ''mainnet'') Mainnet
     ''http://127.0.0.1:9596'' (demoSyncer 900 1064 1065 1 32 256) (demoCheckPoint 900)
     (demoScaleUpdate 901 902 900) (demoScaleUpdate 1064 1065 1)"
    using demo_reachesConsistencyChecks [of 900 1064 1065 1] by simp
  have p: "passesConsistencyChecks (demoWorld 900 1064 1065 1) (demoSyncer 900 1064 1065 1 32 256)
       (demoCheckPoint 900) (demoScaleUpdate 1064 1065 1)"
    by (rule demo_passesConsistencyChecks) simp_all
  have l: "finalizedSlot (demoScaleUpdate 1064 1065 (1 :: u64) :: (Update UpdatePayload_scheme, nat) ScaleUpdate) < 2"
    by (simp add: demo_slots)
  show ?thesis
    using r p l header_update_target_slot_wraps_below_two [OF r p l, of Map.empty]
    by (simp add: demo_slots)
qed

subsection \<open>The benchmark file\<close>

lemma renders_writeFile:
  "filter isRender (trace (snd (writeFile w path c st))) = filter isRender (trace st)"
  by (simp add: writeFile_def Let_def split: option.splits prod.splits)

lemma benchmarkFile_neq_fixtureFile: "benchmarkFile n \<noteq> fixtureFile m"
  by (simp add: benchmarkFile_def fixtureFile_def pathToBeaconBenchmarkData_def
        pathToBeaconTestFixtureFiles_def)

lemma fixtureFile_eq: "fixtureFile n = fixtureFile m \<longleftrightarrow> n = m"
  by (simp add: fixtureFile_def)

lemma fixtureName_distinct:
  "fixtureName ''initial-checkpoint'' a \<noteq> fixtureName ''sync-committee-update'' b"
  "fixtureName ''initial-checkpoint'' a \<noteq> fixtureName ''finalized-header-update'' b"
  "fixtureName ''initial-checkpoint'' a \<noteq> fixtureName ''execution-header-update'' b"
  "fixtureName ''sync-committee-update'' a \<noteq> fixtureName ''finalized-header-update'' b"
  "fixtureName ''sync-committee-update'' a \<noteq> fixtureName ''execution-header-update'' b"
  "fixtureName ''finalized-header-update'' a \<noteq> fixtureName ''execution-header-update'' b"
  by (simp_all add: fixtureName_def)

lemmas fixture_paths_distinct =
  benchmarkFile_neq_fixtureFile benchmarkFile_neq_fixtureFile [symmetric]
  fixtureFile_eq fixtureName_distinct fixtureName_distinct [symmetric]

lemma run_to_benchmarkStage:
  assumes "reachesBenchmarkGate w cmd activeSpec endpoint s cps scu fus hus"
  shows "\<exists>st'. generateBeaconData_body w cmd (initialState fs) =
           benchmarkStage w activeSpec (CheckPoint_ToJSON w cps) (Update_ToJSON w (Payload scu))
             (Update_ToJSON w (Payload fus)) (HeaderUpdate_ToJSON w hus) st'
         \<and> filter isRender (trace st') = []
         \<and> filter isOpen (trace st') =
             [Open (fixtureFile (fixtureName ''initial-checkpoint'' activeSpec)),
              Open (fixtureFile (fixtureName ''sync-committee-update'' activeSpec)),
              Open (fixtureFile (fixtureName ''finalized-header-update'' activeSpec)),
              Open (fixtureFile (fixtureName ''execution-header-update'' activeSpec))]
         \<and> (\<forall>n. files st' (benchmarkFile n) = fs (benchmarkFile n))
         \<and> files st' (fixtureFile (fixtureName ''sync-committee-update'' activeSpec)) =
             Some (jsonBytes w (UpdateJSON (Update_ToJSON w (Payload scu))))
         \<and> files st' (fixtureFile (fixtureName ''finalized-header-update'' activeSpec)) =
             Some (jsonBytes w (UpdateJSON (Update_ToJSON w (Payload fus))))
         \<and> files st' (fixtureFile (fixtureName ''execution-header-update'' activeSpec)) =
             Some (jsonBytes w (HeaderUpdateJSON (HeaderUpdate_ToJSON w hus)))
         \<and> (writable w (fixtureFile (fixtureName ''initial-checkpoint'' activeSpec))
               (jsonBytes w (CheckPointJSON (CheckPoint_ToJSON w cps))) \<longrightarrow>
             files st' (fixtureFile (fixtureName ''initial-checkpoint'' activeSpec)) =
               Some (jsonBytes w (CheckPointJSON (CheckPoint_ToJSON w cps))))"
proof -
  have c: "connect w cmd = Inr (activeSpec, endpoint, s)" and g: "GetCheckpoint s = Inr cps"
    and p: "ComputeSyncPeriodAtSlot s (checkpointSlot w cps) =
            ComputeSyncPeriodAtSlot s (checkpointSlot w cps + 5)"
    and u: "GetSyncCommitteePeriodUpdate s (ComputeSyncPeriodAtSlot s (checkpointSlot w cps + 5)) =
            Inr scu"
    and ws: "writable w (fixtureFile (fixtureName ''sync-committee-update'' activeSpec))
              (jsonBytes w (UpdateJSON (Update_ToJSON w (Payload scu))))"
    and f: "GetFinalizedUpdate s = Inr fus"
    and wf: "writable w (fixtureFile (fixtureName ''finalized-header-update'' activeSpec))
         (jsonBytes w (UpdateJSON (Update_ToJSON w (Payload fus))))"
    and h: "GetNextHeaderUpdateBySlotWithAncestryProof s (finalizedSlot fus - 2) (headerProof fus) =
            Inr hus"
    and wh: "writable w (fixtureFile (fixtureName ''execution-header-update'' activeSpec))
         (jsonBytes w (HeaderUpdateJSON (HeaderUpdate_ToJSON w hus)))"
    using assms
    by (simp_all add: reachesBenchmarkGate_def reachesConsistencyChecks_def reachesPeriodCheck_def)
  have q: "ComputeSyncPeriodAtSlot s (checkpointSlot w cps) =
       ComputeSyncPeriodAtSlot s (SignatureSlot (Update_ToJSON w (Payload fus)))"
    and a: "\<not> BeaconHeader.Slot (AttestedHeader (Update_ToJSON w (Payload fus))) \<le> checkpointSlot w cps"
    using assms by (simp_all add: reachesBenchmarkGate_def passesConsistencyChecks_def not_le)
  show ?thesis
    unfolding connect_spec [OF c] checkpointStage_def syncCommitteeStage_def finalizedUpdateStage_def
      headerUpdateStage_def Let_def writeJSONToFile_def
    using p u
    apply (simp add: g f checkpointSlot_def [symmetric] finalizedSlot_def [symmetric]
             writeFile_writable [OF ws] writeFile_writable [OF wf] q [symmetric] a)
    apply (simp add: h [unfolded headerProof_def] writeFile_writable [OF wh])
    apply (rule exI, intro conjI, rule refl)
    apply (simp_all add: initialState_def renders_writeFile opens_writeFile files_writeFile_other
             fixture_paths_distinct writeFile_writable)
    done
qed


lemma files_benchmarkStage_other:
  "path \<noteq> benchmarkFile ''fixtures.rs'' \<Longrightarrow>
   files (snd (benchmarkStage w a i sc fu hu st)) path = files st path"
  by (simp add: benchmarkStage_def writeBenchmarkDataFile_def Let_def case_prod_beta
        files_writeFile_other split: option.splits)

lemma benchmarkStage_at_gate:
  assumes "reachesBenchmarkGate w cmd activeSpec endpoint s initialSyncScale
             syncCommitteeUpdateScale finalizedUpdateScale headerUpdateScale"
  shows "(let run = generateBeaconData_body w cmd (initialState fs);
              data = \<lparr>CheckpointUpdate =
                        CheckPoint_RemoveLeadingZeroHashes (CheckPoint_ToJSON w initialSyncScale),
                      SyncCommitteeUpdate =
                        Update_RemoveLeadingZeroHashes
                          (Update_ToJSON w (Payload syncCommitteeUpdateScale)),
                      FinalizedHeaderUpdate =
                        Update_RemoveLeadingZeroHashes
                          (Update_ToJSON w (Payload finalizedUpdateScale)),
                      HeaderUpdate =
                        HeaderUpdate_RemoveLeadingZeroHashes
                          (HeaderUpdate_ToJSON w headerUpdateScale)\<rparr>;
              rendered = fst (RenderFile w pathToBenchmarkDataTemplate data);
              fixtures = [Open (fixtureFile (fixtureName ''initial-checkpoint'' activeSpec)),
                          Open (fixtureFile (fixtureName ''sync-committee-update'' activeSpec)),
                          Open (fixtureFile (fixtureName ''finalized-header-update'' activeSpec)),
                          Open (fixtureFile (fixtureName ''execution-header-update'' activeSpec))]
          in (activeSpec = Mainnet \<longrightarrow>
                filter isRender (trace (snd run)) = [Render pathToBenchmarkDataTemplate data]
              \<and> filter isOpen (trace (snd run)) = fixtures @ [Open (benchmarkFile ''fixtures.rs'')]
              \<and> (writable w (benchmarkFile ''fixtures.rs'') rendered \<longrightarrow>
                   fst run = None
                 \<and> files (snd run) (benchmarkFile ''fixtures.rs'') = Some rendered))
           \<and> (activeSpec = Minimal \<longrightarrow>
                fst run = None
              \<and> filter isRender (trace (snd run)) = []
              \<and> filter isOpen (trace (snd run)) = fixtures
              \<and> (\<forall>n. files (snd run) (benchmarkFile n) = fs (benchmarkFile n))))"
proof -
  obtain st' where run:
    "generateBeaconData_body w cmd (initialState fs) =
       benchmarkStage w activeSpec (CheckPoint_ToJSON w initialSyncScale)
         (Update_ToJSON w (Payload syncCommitteeUpdateScale))
         (Update_ToJSON w (Payload finalizedUpdateScale))
         (HeaderUpdate_ToJSON w headerUpdateScale) st'"
    and quiet: "filter isRender (trace st') = []"
    and opens: "filter isOpen (trace st') =
             [Open (fixtureFile (fixtureName ''initial-checkpoint'' activeSpec)),
              Open (fixtureFile (fixtureName ''sync-committee-update'' activeSpec)),
              Open (fixtureFile (fixtureName ''finalized-header-update'' activeSpec)),
              Open (fixtureFile (fixtureName ''execution-header-update'' activeSpec))]"
    and bench: "\<And>n. files st' (benchmarkFile n) = fs (benchmarkFile n)"
    using run_to_benchmarkStage [OF assms, of fs] by blast
  show ?thesis
    by (simp add: run benchmarkStage_def writeBenchmarkDataFile_def Let_def case_prod_beta quiet
          opens bench renders_writeFile opens_writeFile writeFile_writable split: option.splits)
qed

lemma demo_headerUpdate:
  "GetNextHeaderUpdateBySlotWithAncestryProof (demoSyncer c a g f x y) slot proof =
     Inr (demoHeaderUpdate slot)"
  by (simp add: demoSyncer_def)

lemma demo_reachesBenchmarkGate:
  assumes "c div 8192 = (c + 5) div 8192" and "c div 8192 = g div 8192" and "c < a"
  shows "reachesBenchmarkGate (demoWorld c a g f) (demoDataCmd ''mainnet'') Mainnet
           ''http://127.0.0.1:9596'' (demoSyncer c a g f 32 256) (demoCheckPoint c)
           (demoScaleUpdate (c + 1) (c + 2) c) (demoScaleUpdate a g f) (demoHeaderUpdate (f - 2))"
  using assms
  by (simp add: reachesBenchmarkGate_def demo_reachesConsistencyChecks demo_passesConsistencyChecks
        demo_headerUpdate demo_slots writable_demo)

lemma demo_reachesBenchmarkGate_minimal:
  assumes "c div 64 = (c + 5) div 64" and "c div 64 = g div 64" and "c < a"
  shows "reachesBenchmarkGate (demoWorld c a g f) (demoDataCmd ''minimal'') Minimal
           ''http://127.0.0.1:9596'' (demoSyncer c a g f 8 8) (demoCheckPoint c)
           (demoScaleUpdate (c + 1) (c + 2) c) (demoScaleUpdate a g f) (demoHeaderUpdate (f - 2))"
  using assms
  apply (simp add: reachesBenchmarkGate_def reachesConsistencyChecks_def reachesPeriodCheck_def
        passesConsistencyChecks_def connect_demo_minimal writable_demo demo_period
        demo_checkpointSlot demo_finalizedUpdate demo_slots demo_headerUpdate)
  apply (simp add: demoSyncer_def)
  done

lemma fixture_path:
  "fixtureFile (fixtureName stem activeSpec) =
     ''parachain/pallets/ethereum-beacon-client/tests/fixtures/'' @ stem @ ''.''
       @ ToString activeSpec @ ''.json''"
  by (simp add: fixtureFile_def fixtureName_def pathToBeaconTestFixtureFiles_def)

lemma benchmark_path:
  "benchmarkFile filename =
     ''parachain/pallets/ethereum-beacon-client/src/benchmarking/'' @ filename"
  by (simp add: benchmarkFile_def pathToBeaconBenchmarkData_def)

text \<open>
  C8. In a run of \<open>generateBeaconData\<close> that has written the execution header fixture: for
  mainnet the template is rendered once, from the four canonicalized artifacts, and the one
  file opened after the four fixtures is
  \<open>parachain/pallets/ethereum-beacon-client/src/benchmarking/fixtures.rs\<close>, which holds the
  rendered text when it can be written; for minimal nothing is rendered, no file of that
  directory is touched and the closure returns \<open>nil\<close> after the four fixtures.
\<close>

theorem benchmark_file_rendered_on_mainnet_only:
  assumes "reachesBenchmarkGate w cmd activeSpec endpoint s initialSyncScale
             syncCommitteeUpdateScale finalizedUpdateScale headerUpdateScale"
  shows "(let run = generateBeaconData_body w cmd (initialState fs);
              data = \<lparr>CheckpointUpdate =
                        CheckPoint_RemoveLeadingZeroHashes (CheckPoint_ToJSON w initialSyncScale),
                      SyncCommitteeUpdate =
                        Update_RemoveLeadingZeroHashes
                          (Update_ToJSON w (Payload syncCommitteeUpdateScale)),
                      FinalizedHeaderUpdate =
                        Update_RemoveLeadingZeroHashes
                          (Update_ToJSON w (Payload finalizedUpdateScale)),
                      HeaderUpdate =
                        HeaderUpdate_RemoveLeadingZeroHashes
                          (HeaderUpdate_ToJSON w headerUpdateScale)\<rparr>;
              rendered = fst (RenderFile w ''parachain/templates/benchmark-fixtures.mustache'' data)
          in (activeSpec = Mainnet \<longrightarrow>
                filter isRender (trace (snd run)) =
                  [Render ''parachain/templates/benchmark-fixtures.mustache'' data]
              \<and> filter isOpen (trace (snd run)) =
                  [Open ''parachain/pallets/ethereum-beacon-client/tests/fixtures/initial-checkpoint.mainnet.json'',
                   Open ''parachain/pallets/ethereum-beacon-client/tests/fixtures/sync-committee-update.mainnet.json'',
                   Open ''parachain/pallets/ethereum-beacon-client/tests/fixtures/finalized-header-update.mainnet.json'',
                   Open ''parachain/pallets/ethereum-beacon-client/tests/fixtures/execution-header-update.mainnet.json'',
                   Open ''parachain/pallets/ethereum-beacon-client/src/benchmarking/fixtures.rs'']
              \<and> (writable w ''parachain/pallets/ethereum-beacon-client/src/benchmarking/fixtures.rs''
                    rendered \<longrightarrow>
                   fst run = None
                 \<and> files (snd run)
                     ''parachain/pallets/ethereum-beacon-client/src/benchmarking/fixtures.rs'' =
                     Some rendered))
           \<and> (activeSpec = Minimal \<longrightarrow>
                fst run = None
              \<and> filter isRender (trace (snd run)) = []
              \<and> filter isOpen (trace (snd run)) =
                  [Open ''parachain/pallets/ethereum-beacon-client/tests/fixtures/initial-checkpoint.minimal.json'',
                   Open ''parachain/pallets/ethereum-beacon-client/tests/fixtures/sync-committee-update.minimal.json'',
                   Open ''parachain/pallets/ethereum-beacon-client/tests/fixtures/finalized-header-update.minimal.json'',
                   Open ''parachain/pallets/ethereum-beacon-client/tests/fixtures/execution-header-update.minimal.json'']
              \<and> (\<forall>filename.
                    files (snd run)
                      (''parachain/pallets/ethereum-beacon-client/src/benchmarking/'' @ filename) =
                    fs (''parachain/pallets/ethereum-beacon-client/src/benchmarking/'' @ filename))))"
  using benchmarkStage_at_gate [OF assms, of fs]
  by (simp add: Let_def fixture_path benchmark_path pathToBenchmarkDataTemplate_def)

theorem benchmark_file_rendered_on_mainnet_only_witness:
  "reachesBenchmarkGate (demoWorld 900 1064 1065 1000) (demoDataCmd ''mainnet'') Mainnet
     ''http://127.0.0.1:9596'' (demoSyncer 900 1064 1065 1000 32 256) (demoCheckPoint 900)
     (demoScaleUpdate 901 902 900) (demoScaleUpdate 1064 1065 1000) (demoHeaderUpdate 998)
   \<and> filter isOpen
       (trace (snd (generateBeaconData_body (demoWorld 900 1064 1065 1000) (demoDataCmd ''mainnet'')
          (initialState Map.empty)))) =
       [Open ''parachain/pallets/ethereum-beacon-client/tests/fixtures/initial-checkpoint.mainnet.json'',
        Open ''parachain/pallets/ethereum-beacon-client/tests/fixtures/sync-committee-update.mainnet.json'',
        Open ''parachain/pallets/ethereum-beacon-client/tests/fixtures/finalized-header-update.mainnet.json'',
        Open ''parachain/pallets/ethereum-beacon-client/tests/fixtures/execution-header-update.mainnet.json'',
        Open ''parachain/pallets/ethereum-beacon-client/src/benchmarking/fixtures.rs'']
   \<and> files (snd (generateBeaconData_body (demoWorld 900 1064 1065 1000) (demoDataCmd ''mainnet'')
          (initialState Map.empty)))
       ''parachain/pallets/ethereum-beacon-client/src/benchmarking/fixtures.rs'' =
       Some ''rendered 44''
   \<and> reachesBenchmarkGate (demoWorld 100 105 106 96) (demoDataCmd ''minimal'') Minimal
     ''http://127.0.0.1:9596'' (demoSyncer 100 105 106 96 8 8) (demoCheckPoint 100)
     (demoScaleUpdate 101 102 100) (demoScaleUpdate 105 106 96) (demoHeaderUpdate 94)
   \<and> fst (generateBeaconData_body (demoWorld 100 105 106 96) (demoDataCmd ''minimal'')
          (initialState Map.empty)) = None
   \<and> filter isRender
       (trace (snd (generateBeaconData_body (demoWorld 100 105 106 96) (demoDataCmd ''minimal'')
          (initialState Map.empty)))) = []
   \<and> files (snd (generateBeaconData_body (demoWorld 100 105 106 96) (demoDataCmd ''minimal'')
          (initialState Map.empty)))
       ''parachain/pallets/ethereum-beacon-client/src/benchmarking/fixtures.rs'' = None"
proof -
  have m: "reachesBenchmarkGate (demoWorld 900 1064 1065 1000) (demoDataCmd ''mainnet'') Mainnet
     ''http://127.0.0.1:9596'' (demoSyncer 900 1064 1065 1000 32 256) (demoCheckPoint 900)
     (demoScaleUpdate 901 902 900) (demoScaleUpdate 1064 1065 1000) (demoHeaderUpdate 998)"
    using demo_reachesBenchmarkGate [of 900 1065 1064 1000] by simp
  have n: "reachesBenchmarkGate (demoWorld 100 105 106 96) (demoDataCmd ''minimal'') Minimal
     ''http://127.0.0.1:9596'' (demoSyncer 100 105 106 96 8 8) (demoCheckPoint 100)
     (demoScaleUpdate 101 102 100) (demoScaleUpdate 105 106 96) (demoHeaderUpdate 94)"
    using demo_reachesBenchmarkGate_minimal [of 100 106 105 96] by simp
  have r: "fst (RenderFile (demoWorld c a g f) path data) =
             ''rendered '' @ CheckPoint.BlockRootsRoot (CheckpointUpdate data)" for c a g f path data
    by (simp add: demoWorld_def)
  have j: "CheckPoint_ToJSON (demoWorld c a g f) cp = cp" for c a g f cp
    by (simp add: demoWorld_def)
  show ?thesis
    using m n benchmark_file_rendered_on_mainnet_only [OF m, of Map.empty]
      benchmark_file_rendered_on_mainnet_only [OF n, of Map.empty]
    by (simp add: Let_def writable_demo r j CheckPoint_RemoveLeadingZeroHashes_def
          removeLeadingZeroHash_def demoCheckPoint_def)
qed

subsection \<open>The hex canonicalizer\<close>

lemma removeLeadingZeroHash_unprefixed:
  "take 2 s \<noteq> ''0x'' \<Longrightarrow> removeLeadingZeroHash s = s"
  by (simp add: removeLeadingZeroHash_def)


lemma BeaconHeader_unprefixed:
  "\<forall>x \<in> set (BeaconHeader_hashes h). take 2 x \<noteq> ''0x'' \<Longrightarrow>
   BeaconHeader_RemoveLeadingZeroHashes h = h"
  by (simp add: BeaconHeader_RemoveLeadingZeroHashes_def BeaconHeader_hashes_def
        removeLeadingZeroHash_unprefixed)

lemma map_removeLeadingZeroHash_unprefixed:
  "\<forall>x \<in> set xs. take 2 x \<noteq> ''0x'' \<Longrightarrow> map removeLeadingZeroHash xs = xs"
  by (simp add: map_idI removeLeadingZeroHash_unprefixed)

lemma canonicalize_unprefixed:
  assumes "\<forall>h \<in> set (hashFields x). take 2 h \<noteq> ''0x''"
  shows "canonicalize x = x"
proof (cases x)
  case (CheckPointJSON p)
  with assms show ?thesis
    by (cases p) (simp add: CheckPoint_RemoveLeadingZeroHashes_def BeaconHeader_unprefixed
          removeLeadingZeroHash_unprefixed map_removeLeadingZeroHash_unprefixed)
next
  case (UpdateJSON u)
  with assms show ?thesis
    by (cases u; cases "SyncAggregate u") (simp add: Update_RemoveLeadingZeroHashes_def BeaconHeader_unprefixed
          SyncAggregate_RemoveLeadingZeroHashes_def
          removeLeadingZeroHash_unprefixed map_removeLeadingZeroHash_unprefixed)
next
  case (HeaderUpdateJSON u)
  with assms show ?thesis
    by (cases u) (simp add: HeaderUpdate_RemoveLeadingZeroHashes_def BeaconHeader_unprefixed
          removeLeadingZeroHash_unprefixed map_removeLeadingZeroHash_unprefixed)
qed

lemma hashFields_canonicalize:
  "hashFields (canonicalize x) = map removeLeadingZeroHash (hashFields x)"
  by (cases x)
     (simp_all add: CheckPoint_RemoveLeadingZeroHashes_def Update_RemoveLeadingZeroHashes_def
        HeaderUpdate_RemoveLeadingZeroHashes_def BeaconHeader_RemoveLeadingZeroHashes_def
        SyncAggregate_RemoveLeadingZeroHashes_def BeaconHeader_hashes_def)

lemma isHexString_drop: "isHexString s \<Longrightarrow> isHexString (drop n s)"
  by (auto simp add: isHexString_def list_all_iff dest: in_set_dropD)

lemma isHexString_unprefixed:
  assumes "isHexString s"
  shows "take 2 s \<noteq> ''0x''"
proof
  assume p: "take 2 s = ''0x''"
  have "CHR ''x'' \<in> set (take 2 s)" by (simp add: p)
  then have "CHR ''x'' \<in> set s" by (rule in_set_takeD)
  with assms have "CHR ''x'' \<in> set hextable" by (simp add: isHexString_def list_all_iff)
  then show False by (simp add: hextable_def)
qed

lemma isHash_stripped: "isHash s \<Longrightarrow> isHexString (removeLeadingZeroHash s)"
  by (auto simp add: isHash_def removeLeadingZeroHash_def isHexString_drop)

lemma canonicalize_hashes:
  assumes "list_all isHash (hashFields x)"
  shows "list_all isHexString (hashFields (canonicalize x))"
  using assms by (simp add: hashFields_canonicalize list_all_iff isHash_stripped)

lemma canonicalize_bare:
  assumes "list_all isHexString (hashFields x)"
  shows "canonicalize x = x"
  using assms
  by (intro canonicalize_unprefixed) (simp add: list_all_iff isHexString_unprefixed)

lemma canonicalize_idempotent_on_hashes:
  assumes "list_all isHash (hashFields x)"
  shows "canonicalize (canonicalize x) = canonicalize x"
  by (rule canonicalize_bare) (rule canonicalize_hashes [OF assms])

lemma fixtures_keep_fetched_bytes:
  assumes gate: "reachesBenchmarkGate w cmd activeSpec endpoint s initialSyncScale
     syncCommitteeUpdateScale finalizedUpdateScale headerUpdateScale"
  shows "files (snd (generateBeaconData_body w cmd (initialState fs)))
           (fixtureFile (fixtureName ''sync-committee-update'' activeSpec)) =
         Some (jsonBytes w (UpdateJSON (Update_ToJSON w (Payload syncCommitteeUpdateScale))))
       \<and> files (snd (generateBeaconData_body w cmd (initialState fs)))
           (fixtureFile (fixtureName ''finalized-header-update'' activeSpec)) =
         Some (jsonBytes w (UpdateJSON (Update_ToJSON w (Payload finalizedUpdateScale))))
       \<and> files (snd (generateBeaconData_body w cmd (initialState fs)))
           (fixtureFile (fixtureName ''execution-header-update'' activeSpec)) =
         Some (jsonBytes w (HeaderUpdateJSON (HeaderUpdate_ToJSON w headerUpdateScale)))
       \<and> (writable w (fixtureFile (fixtureName ''initial-checkpoint'' activeSpec))
             (jsonBytes w (CheckPointJSON (CheckPoint_ToJSON w initialSyncScale))) \<longrightarrow>
           files (snd (generateBeaconData_body w cmd (initialState fs)))
             (fixtureFile (fixtureName ''initial-checkpoint'' activeSpec)) =
           Some (jsonBytes w (CheckPointJSON (CheckPoint_ToJSON w initialSyncScale))))
       \<and> (activeSpec = Mainnet \<longrightarrow>
           filter isRender (trace (snd (generateBeaconData_body w cmd (initialState fs)))) =
             [Render pathToBenchmarkDataTemplate
                \<lparr>CheckpointUpdate =
                   CheckPoint_RemoveLeadingZeroHashes (CheckPoint_ToJSON w initialSyncScale),
                 SyncCommitteeUpdate =
                   Update_RemoveLeadingZeroHashes
                     (Update_ToJSON w (Payload syncCommitteeUpdateScale)),
                 FinalizedHeaderUpdate =
                   Update_RemoveLeadingZeroHashes
                     (Update_ToJSON w (Payload finalizedUpdateScale)),
                 HeaderUpdate =
                   HeaderUpdate_RemoveLeadingZeroHashes
                     (HeaderUpdate_ToJSON w headerUpdateScale)\<rparr>])"
proof -
  obtain st' where run:
    "generateBeaconData_body w cmd (initialState fs) =
       benchmarkStage w activeSpec (CheckPoint_ToJSON w initialSyncScale)
         (Update_ToJSON w (Payload syncCommitteeUpdateScale))
         (Update_ToJSON w (Payload finalizedUpdateScale))
         (HeaderUpdate_ToJSON w headerUpdateScale) st'"
    and quiet: "filter isRender (trace st') = []"
    and written:
      "files st' (fixtureFile (fixtureName ''sync-committee-update'' activeSpec)) =
         Some (jsonBytes w (UpdateJSON (Update_ToJSON w (Payload syncCommitteeUpdateScale))))"
      "files st' (fixtureFile (fixtureName ''finalized-header-update'' activeSpec)) =
         Some (jsonBytes w (UpdateJSON (Update_ToJSON w (Payload finalizedUpdateScale))))"
      "files st' (fixtureFile (fixtureName ''execution-header-update'' activeSpec)) =
         Some (jsonBytes w (HeaderUpdateJSON (HeaderUpdate_ToJSON w headerUpdateScale)))"
      "writable w (fixtureFile (fixtureName ''initial-checkpoint'' activeSpec))
           (jsonBytes w (CheckPointJSON (CheckPoint_ToJSON w initialSyncScale))) \<longrightarrow>
       files st' (fixtureFile (fixtureName ''initial-checkpoint'' activeSpec)) =
         Some (jsonBytes w (CheckPointJSON (CheckPoint_ToJSON w initialSyncScale)))"
    using run_to_benchmarkStage [OF gate, of fs] by blast
  have rendered: "activeSpec = Mainnet \<Longrightarrow>
      filter isRender (trace (snd (generateBeaconData_body w cmd (initialState fs)))) =
        [Render pathToBenchmarkDataTemplate
           \<lparr>CheckpointUpdate =
              CheckPoint_RemoveLeadingZeroHashes (CheckPoint_ToJSON w initialSyncScale),
            SyncCommitteeUpdate =
              Update_RemoveLeadingZeroHashes (Update_ToJSON w (Payload syncCommitteeUpdateScale)),
            FinalizedHeaderUpdate =
              Update_RemoveLeadingZeroHashes (Update_ToJSON w (Payload finalizedUpdateScale)),
            HeaderUpdate =
              HeaderUpdate_RemoveLeadingZeroHashes (HeaderUpdate_ToJSON w headerUpdateScale)\<rparr>]"
    by (simp add: run benchmarkStage_def writeBenchmarkDataFile_def Let_def case_prod_beta quiet
          renders_writeFile split: option.splits)
  show ?thesis
    apply (intro conjI impI)
    apply (simp_all add: rendered)
    apply (simp_all add: run files_benchmarkStage_other fixture_paths_distinct written)
    done
qed

text \<open>
  C7. On every artifact (its hash-valued fields being hashes: hex digits, bare or behind
  \<open>0x\<close>) the canonicalization applied twice yields the same value as applied once, and it
  leaves bare hex digits in every hash field; an artifact already stripped is left
  unchanged. In a run of \<open>generateBeaconData\<close> that has written the execution header
  fixture, the fixture files hold the bytes serialized from the artifacts as fetched, not
  stripped, also where the template is then rendered from the stripped artifacts: the
  stripping happens after the four fixture writes.
\<close>

theorem canonicalization_idempotent_and_fixtures_keep_prefix:
  "(list_all isHash (hashFields x) \<longrightarrow>
      canonicalize (canonicalize x) = canonicalize x
    \<and> list_all isHexString (hashFields (canonicalize x)))
 \<and> (list_all isHexString (hashFields x) \<longrightarrow> canonicalize x = x)
 \<and> (reachesBenchmarkGate w cmd activeSpec endpoint s initialSyncScale syncCommitteeUpdateScale
        finalizedUpdateScale headerUpdateScale \<longrightarrow>
      (let run = generateBeaconData_body w cmd (initialState fs);
           fixtures = ''parachain/pallets/ethereum-beacon-client/tests/fixtures/'';
           suffix = ''.'' @ ToString activeSpec @ ''.json'';
           initialSync = CheckPointJSON (CheckPoint_ToJSON w initialSyncScale);
           syncCommitteeUpdate = UpdateJSON (Update_ToJSON w (Payload syncCommitteeUpdateScale));
           finalizedUpdate = UpdateJSON (Update_ToJSON w (Payload finalizedUpdateScale));
           headerUpdate = HeaderUpdateJSON (HeaderUpdate_ToJSON w headerUpdateScale)
       in files (snd run) (fixtures @ ''sync-committee-update'' @ suffix) =
            Some (jsonBytes w syncCommitteeUpdate)
        \<and> files (snd run) (fixtures @ ''finalized-header-update'' @ suffix) =
            Some (jsonBytes w finalizedUpdate)
        \<and> files (snd run) (fixtures @ ''execution-header-update'' @ suffix) =
            Some (jsonBytes w headerUpdate)
        \<and> (writable w (fixtures @ ''initial-checkpoint'' @ suffix) (jsonBytes w initialSync) \<longrightarrow>
            files (snd run) (fixtures @ ''initial-checkpoint'' @ suffix) =
              Some (jsonBytes w initialSync))
        \<and> (activeSpec = Mainnet \<longrightarrow>
            filter isRender (trace (snd run)) =
              [Render ''parachain/templates/benchmark-fixtures.mustache''
                 \<lparr>CheckpointUpdate =
                    CheckPoint_RemoveLeadingZeroHashes (CheckPoint_ToJSON w initialSyncScale),
                  SyncCommitteeUpdate =
                    Update_RemoveLeadingZeroHashes
                      (Update_ToJSON w (Payload syncCommitteeUpdateScale)),
                  FinalizedHeaderUpdate =
                    Update_RemoveLeadingZeroHashes
                      (Update_ToJSON w (Payload finalizedUpdateScale)),
                  HeaderUpdate =
                    HeaderUpdate_RemoveLeadingZeroHashes
                      (HeaderUpdate_ToJSON w headerUpdateScale)\<rparr>])))"
proof (intro conjI impI)
  assume "list_all isHash (hashFields x)"
  then show "canonicalize (canonicalize x) = canonicalize x"
    by (rule canonicalize_idempotent_on_hashes)
next
  assume "list_all isHash (hashFields x)"
  then show "list_all isHexString (hashFields (canonicalize x))"
    by (rule canonicalize_hashes)
next
  assume "list_all isHexString (hashFields x)"
  then show "canonicalize x = x" by (rule canonicalize_bare)
next
  assume gate: "reachesBenchmarkGate w cmd activeSpec endpoint s initialSyncScale
     syncCommitteeUpdateScale finalizedUpdateScale headerUpdateScale"
  show "let run = generateBeaconData_body w cmd (initialState fs);
           fixtures = ''parachain/pallets/ethereum-beacon-client/tests/fixtures/'';
           suffix = ''.'' @ ToString activeSpec @ ''.json'';
           initialSync = CheckPointJSON (CheckPoint_ToJSON w initialSyncScale);
           syncCommitteeUpdate = UpdateJSON (Update_ToJSON w (Payload syncCommitteeUpdateScale));
           finalizedUpdate = UpdateJSON (Update_ToJSON w (Payload finalizedUpdateScale));
           headerUpdate = HeaderUpdateJSON (HeaderUpdate_ToJSON w headerUpdateScale)
       in files (snd run) (fixtures @ ''sync-committee-update'' @ suffix) =
            Some (jsonBytes w syncCommitteeUpdate)
        \<and> files (snd run) (fixtures @ ''finalized-header-update'' @ suffix) =
            Some (jsonBytes w finalizedUpdate)
        \<and> files (snd run) (fixtures @ ''execution-header-update'' @ suffix) =
            Some (jsonBytes w headerUpdate)
        \<and> (writable w (fixtures @ ''initial-checkpoint'' @ suffix) (jsonBytes w initialSync) \<longrightarrow>
            files (snd run) (fixtures @ ''initial-checkpoint'' @ suffix) =
              Some (jsonBytes w initialSync))
        \<and> (activeSpec = Mainnet \<longrightarrow>
            filter isRender (trace (snd run)) =
              [Render ''parachain/templates/benchmark-fixtures.mustache''
                 \<lparr>CheckpointUpdate =
                    CheckPoint_RemoveLeadingZeroHashes (CheckPoint_ToJSON w initialSyncScale),
                  SyncCommitteeUpdate =
                    Update_RemoveLeadingZeroHashes
                      (Update_ToJSON w (Payload syncCommitteeUpdateScale)),
                  FinalizedHeaderUpdate =
                    Update_RemoveLeadingZeroHashes
                      (Update_ToJSON w (Payload finalizedUpdateScale)),
                  HeaderUpdate =
                    HeaderUpdate_RemoveLeadingZeroHashes
                      (HeaderUpdate_ToJSON w headerUpdateScale)\<rparr>])"
    using fixtures_keep_fetched_bytes [OF gate, of fs]
    by (simp add: Let_def fixture_path pathToBenchmarkDataTemplate_def)
qed

theorem canonicalization_idempotent_and_fixtures_keep_prefix_witness:
  "canonicalize (canonicalize (UpdateJSON (demoUpdate 1064 1065 1000))) =
     canonicalize (UpdateJSON (demoUpdate 1064 1065 1000))
   \<and> hashFields (UpdateJSON (demoUpdate 1064 1065 1000)) =
       [''0x11'', ''0x22'', ''0x33'', ''0xff'', ''0x77'', ''0x11'', ''0x22'', ''0x33'', ''0x88'',
        ''0x99'', ''0xaa'']
   \<and> hashFields (canonicalize (UpdateJSON (demoUpdate 1064 1065 1000))) =
       [''11'', ''22'', ''33'', ''ff'', ''77'', ''11'', ''22'', ''33'', ''88'', ''99'', ''aa'']
   \<and> reachesBenchmarkGate (demoWorld 900 1064 1065 1000) (demoDataCmd ''mainnet'') Mainnet
       ''http://127.0.0.1:9596'' (demoSyncer 900 1064 1065 1000 32 256) (demoCheckPoint 900)
       (demoScaleUpdate 901 902 900) (demoScaleUpdate 1064 1065 1000) (demoHeaderUpdate 998)
   \<and> files (snd (generateBeaconData_body (demoWorld 900 1064 1065 1000) (demoDataCmd ''mainnet'')
          (initialState Map.empty)))
        ''parachain/pallets/ethereum-beacon-client/tests/fixtures/finalized-header-update.mainnet.json'' =
       Some ''update 0x99''
   \<and> files (snd (generateBeaconData_body (demoWorld 900 1064 1065 1000) (demoDataCmd ''mainnet'')
          (initialState Map.empty)))
        ''parachain/pallets/ethereum-beacon-client/tests/fixtures/initial-checkpoint.mainnet.json'' =
       Some ''checkpoint 0x44''"
proof -
  have m: "reachesBenchmarkGate (demoWorld 900 1064 1065 1000) (demoDataCmd ''mainnet'') Mainnet
     ''http://127.0.0.1:9596'' (demoSyncer 900 1064 1065 1000 32 256) (demoCheckPoint 900)
     (demoScaleUpdate 901 902 900) (demoScaleUpdate 1064 1065 1000) (demoHeaderUpdate 998)"
    using demo_reachesBenchmarkGate [of 900 1065 1064 1000] by simp
  have fields:
    "hashFields (UpdateJSON (demoUpdate 1064 1065 1000)) =
       [''0x11'', ''0x22'', ''0x33'', ''0xff'', ''0x77'', ''0x11'', ''0x22'', ''0x33'', ''0x88'',
        ''0x99'', ''0xaa'']"
    "hashFields (canonicalize (UpdateJSON (demoUpdate 1064 1065 1000))) =
       [''11'', ''22'', ''33'', ''ff'', ''77'', ''11'', ''22'', ''33'', ''88'', ''99'', ''aa'']"
    by (simp_all add: demoUpdate_def demoBeaconHeader_def BeaconHeader_hashes_def
          Update_RemoveLeadingZeroHashes_def BeaconHeader_RemoveLeadingZeroHashes_def
          SyncAggregate_RemoveLeadingZeroHashes_def removeLeadingZeroHash_def)
  have h: "list_all isHash (hashFields (UpdateJSON (demoUpdate 1064 1065 1000)))"
    unfolding fields by (simp add: isHash_def isHexString_def hextable_def)
  have b: "list_all isHexString (hashFields (canonicalize (UpdateJSON (demoUpdate 1064 1065 1000))))"
    unfolding fields by (simp add: isHexString_def hextable_def)
  have j: "jsonBytes (demoWorld c a g f) data = demoMarshal data" for c a g f data
    by (simp add: jsonBytes_def demoWorld_def)
  have t: "CheckPoint_ToJSON (demoWorld c a g f) cp = cp" for c a g f cp
    by (simp add: demoWorld_def)
  show ?thesis
    using m h b fields
      canonicalization_idempotent_and_fixtures_keep_prefix
        [of "canonicalize (UpdateJSON (demoUpdate 1064 1065 1000))"]
      canonicalization_idempotent_and_fixtures_keep_prefix
        [of "UpdateJSON (demoUpdate 1064 1065 1000)" "demoWorld 900 1064 1065 1000"
            "demoDataCmd ''mainnet''" Mainnet "''http://127.0.0.1:9596''"
            "demoSyncer 900 1064 1065 1000 32 256" "demoCheckPoint 900"
            "demoScaleUpdate 901 902 900" "demoScaleUpdate 1064 1065 1000" "demoHeaderUpdate 998"
            Map.empty]
    by (simp add: Let_def writable_demo j t demo_finalizedUpdate demoMarshal_def demoUpdate_def
          demoCheckPoint_def)
qed

subsection \<open>The checkpoint command\<close>

lemma EncodeToString_length: "length (EncodeToString src) = 2 * length src"
  by (induction src) (simp_all add: EncodeToString_def)

lemma hextable_nth: "n < 16 \<Longrightarrow> hextable ! n \<in> set hextable"
  by (rule nth_mem) (simp add: hextable_def)

lemma high_nibble: "unat (drop_bit 4 (v :: byte)) < 16"
proof -
  have "unat v < 2 ^ 8" using unsigned_less [of v] by simp
  then show ?thesis by (simp add: drop_bit_eq_div unat_div)
qed

lemma low_nibble: "unat ((v :: byte) AND 0x0f) < 16"
proof -
  have "v AND 0x0f \<le> 0x0f" by (rule word_and_le1)
  then have "unat (v AND 0x0f) \<le> 15" by (simp add: word_le_nat_alt)
  then show ?thesis by simp
qed

lemma EncodeToString_hex: "set (EncodeToString src) \<subseteq> set hextable"
  by (auto simp add: EncodeToString_def hextable_nth high_nibble low_nibble)

lemma printlns_writeFile:
  "filter isPrintln (trace (snd (writeFile w path c st))) = filter isPrintln (trace st)"
  by (simp add: writeFile_def Let_def split: option.splits prod.splits)

lemma connect_demo_checkpoint:
  "connect (demoWorld c a g f) (demoCheckpointCmd ''mainnet'') =
     Inr (Mainnet, ''http://127.0.0.1:9596'', demoSyncer c a g f 32 256)"
  by (simp add: connect_def demoCheckpointCmd_def withFlags_def generateBeaconCheckpointCmd_def
        GetString_def ToSpec_def demoWorld_def GetSpecSettingsBySpec_def demoConfig_def)

text \<open>
  C4. In a run of \<open>generateBeaconCheckpoint\<close> in which the checkpoint is fetched (and the
  JSON export, where the command makes one, succeeds), the one line printed is the tag
  \<open>0x3200\<close>, which is \<open>0x\<close> and the hex of the two bytes 32 00, followed by the hex encoding
  of the bytes \<open>types.EncodeToBytes\<close> gives for the checkpoint: two lowercase hex digits for
  each byte.
\<close>

theorem checkpoint_call_printed_as_hex:
  assumes "connect w cmd = Inr (activeSpec, endpoint, s)"
      and "GetCheckpoint s = Inr checkPointScale"
      and "fst (GetBool cmd ''export_json'') \<longrightarrow>
             writable w (fixtureFile ''dump-initial-checkpoint.json'')
               (jsonBytes w (CheckPointJSON (CheckPoint_ToJSON w checkPointScale)))"
  shows "(let run = generateBeaconCheckpoint w cmd (initialState fs);
              checkPointBytes = fst (EncodeToBytes w checkPointScale)
          in fst run = None
           \<and> filter isPrintln (trace (snd run)) =
                [Println (''0x3200'' @ EncodeToString checkPointBytes)]
           \<and> ''0x3200'' = ''0x'' @ EncodeToString [0x32, 0x00]
           \<and> length (EncodeToString checkPointBytes) = 2 * length checkPointBytes
           \<and> set (EncodeToString checkPointBytes) \<subseteq> set ''0123456789abcdef'')"
proof -
  have tag: "''0x3200'' = ''0x'' @ EncodeToString [0x32, 0x00]"
    by (simp add: EncodeToString_def hextable_def drop_bit_eq_div)
  have run: "filter isPrintln (trace (snd (generateBeaconCheckpoint w cmd (initialState fs)))) =
               [Println (''0x3200'' @ EncodeToString (fst (EncodeToBytes w checkPointScale)))]
           \<and> fst (generateBeaconCheckpoint w cmd (initialState fs)) = None"
    using assms(3)
    by (simp add: generateBeaconCheckpoint_def generateBeaconCheckpoint_body_def assms(1,2) Let_def
          writeJSONToFile_def writeFile_writable initialState_def)
  have hex: "set (EncodeToString (fst (EncodeToBytes w checkPointScale))) \<subseteq>
             set ''0123456789abcdef''"
    using EncodeToString_hex [of "fst (EncodeToBytes w checkPointScale)"]
    unfolding hextable_def .
  show ?thesis
    unfolding Let_def
    by (intro conjI run [THEN conjunct1] run [THEN conjunct2] tag EncodeToString_length hex)
qed

theorem checkpoint_call_printed_as_hex_witness:
  "connect (demoWorld 900 1064 1065 1000) (demoCheckpointCmd ''mainnet'') =
     Inr (Mainnet, ''http://127.0.0.1:9596'', demoSyncer 900 1064 1065 1000 32 256)
   \<and> GetCheckpoint (demoSyncer 900 1064 1065 1000 32 256) = Inr (demoCheckPoint 900)
   \<and> \<not> fst (GetBool (demoCheckpointCmd ''mainnet'') ''export_json'')
   \<and> filter isPrintln
       (trace (snd (generateBeaconCheckpoint (demoWorld 900 1064 1065 1000)
          (demoCheckpointCmd ''mainnet'') (initialState Map.empty)))) = [Println ''0x320001abf0'']"
proof -
  have c: "connect (demoWorld 900 1064 1065 1000) (demoCheckpointCmd ''mainnet'') =
     Inr (Mainnet, ''http://127.0.0.1:9596'', demoSyncer 900 1064 1065 1000 32 256)"
    by (rule connect_demo_checkpoint)
  have g: "GetCheckpoint (demoSyncer 900 1064 1065 1000 32 256) = Inr (demoCheckPoint 900)"
    by (simp add: demoSyncer_def)
  have e: "\<not> fst (GetBool (demoCheckpointCmd ''mainnet'') ''export_json'')"
    by (simp add: GetBool_def demoCheckpointCmd_def withFlags_def generateBeaconCheckpointCmd_def)
  have b: "fst (EncodeToBytes (demoWorld 900 1064 1065 1000) (demoCheckPoint 900)) = [0x01, 0xab, 0xf0]"
    by (simp add: demoWorld_def)
  have x: "EncodeToString [0x01, 0xab, 0xf0] = ''01abf0''"
    by (simp add: EncodeToString_def hextable_def drop_bit_eq_div)
  show ?thesis
    using c g e checkpoint_call_printed_as_hex [OF c g, of Map.empty]
    by (simp add: Let_def b x)
qed

text \<open>
  C9. The claim holds of the flag as it is defined (line 63: \<open>export-json\<close>, default true)
  and the code misses it: line 118 reads \<open>export_json\<close>, a name no flag has, so the value
  read is false whatever the operator passes; the command never opens a file and leaves the
  files as they are. The run below is the command started with only \<open>--spec mainnet\<close>.
\<close>

theorem export_json_flag_is_never_read:
  "fst (GetBool (withFlags generateBeaconCheckpointCmd args) ''export_json'') = False
 \<and> filter isOpen (trace (snd (generateBeaconCheckpoint w (withFlags generateBeaconCheckpointCmd args) st))) =
     filter isOpen (trace st)
 \<and> files (snd (generateBeaconCheckpoint w (withFlags generateBeaconCheckpointCmd args) st)) = files st
 \<and> GetBool (demoCheckpointCmd ''mainnet'') ''export-json'' = (True, None)
 \<and> generateBeaconCheckpoint (demoWorld 900 1064 1065 1000) (demoCheckpointCmd ''mainnet'')
     (initialState Map.empty) =
     (None, \<lparr>trace = [Call_GetCheckpoint, Println ''0x320001abf0''], files = Map.empty\<rparr>)"
proof -
  have flag: "fst (GetBool (withFlags generateBeaconCheckpointCmd args) ''export_json'') = False"
    for args
    by (simp add: GetBool_def withFlags_def generateBeaconCheckpointCmd_def)
  have quiet: "filter isOpen (trace (snd (generateBeaconCheckpoint w
                  (withFlags generateBeaconCheckpointCmd args) st))) = filter isOpen (trace st)
             \<and> files (snd (generateBeaconCheckpoint w (withFlags generateBeaconCheckpointCmd args) st)) =
                 files st"
    by (simp add: generateBeaconCheckpoint_def generateBeaconCheckpoint_body_def flag Let_def
        split: sum.splits prod.splits option.splits)
  have dflt: "GetBool (demoCheckpointCmd ''mainnet'') ''export-json'' = (True, None)"
    by (simp add: GetBool_def demoCheckpointCmd_def withFlags_def generateBeaconCheckpointCmd_def)
  have x: "EncodeToString [0x01, 0xab, 0xf0] = ''01abf0''"
    by (simp add: EncodeToString_def hextable_def drop_bit_eq_div)
  have run: "generateBeaconCheckpoint (demoWorld 900 1064 1065 1000) (demoCheckpointCmd ''mainnet'')
     (initialState Map.empty) =
     (None, \<lparr>trace = [Call_GetCheckpoint, Println ''0x320001abf0''], files = Map.empty\<rparr>)"
    using flag [of "[(''spec'', StringValue ''mainnet'')]"]
    by (simp add: generateBeaconCheckpoint_def generateBeaconCheckpoint_body_def
          connect_demo_checkpoint demoCheckpointCmd_def [symmetric] Let_def)
       (simp add: demoSyncer_def demoWorld_def x emit_def initialState_def)
  show ?thesis
    using flag quiet dflt run by blast
qed

subsection \<open>Errors at the command boundary\<close>

lemma errorLogs_writeFile:
  "filter isErrorLog (trace (snd (writeFile w path c st))) = filter isErrorLog (trace st)"
  by (simp add: writeFile_def Let_def split: option.splits prod.splits)








subsection \<open>Errors the pipeline does not look at\<close>

lemma connect_broken:
  "connect brokenWorld (demoDataCmd ''mainnet'') =
     Inr (Mainnet, ''http://127.0.0.1:9596'', demoSyncer 900 1064 1065 1000 32 256)"
  by (simp add: connect_def demoDataCmd_def withFlags_def generateBeaconDataCmd_def GetString_def
        ToSpec_def brokenWorld_def demoWorld_def GetSpecSettingsBySpec_def demoConfig_def)

lemma broken_world:
  "OpenFile brokenWorld path =
     (if path = fixtureFile (fixtureName ''initial-checkpoint'' Mainnet)
      then Some (ExternalError ''permission denied'') else None)"
  "Write brokenWorld path contents = (length contents, None)"
  "RenderFile brokenWorld path data = ([], Some (ExternalError ''no such file or directory''))"
  "CheckPoint_ToJSON brokenWorld cp = cp"
  "Update_ToJSON brokenWorld = UpdatePayload.more"
  "HeaderUpdate_ToJSON brokenWorld hu = hu"
  by (simp_all add: brokenWorld_def demoWorld_def)

text \<open>
  C6. The claim holds of the three later fixture writes and of the benchmark file, whose
  errors end the run (lines 195-198, 207-210, 235-238, 271-274), and the code misses it
  twice: the error of the first fixture write (line 176) is never looked at, and the error
  of the template rendering (line 263) is overwritten at line 271. In the run below the
  fixture of the initial checkpoint cannot be created and the template cannot be rendered;
  all four requests are made all the same, the other fixtures and an empty \<open>fixtures.rs\<close> are
  written, and the closure returns \<open>nil\<close>.
\<close>

theorem unchecked_write_and_render_errors:
  "(let run = generateBeaconData_body brokenWorld (demoDataCmd ''mainnet'') (initialState Map.empty)
    in OpenFile brokenWorld (fixtureFile (fixtureName ''initial-checkpoint'' Mainnet)) =
         Some (ExternalError ''permission denied'')
     \<and> files (snd run) (fixtureFile (fixtureName ''initial-checkpoint'' Mainnet)) = None
     \<and> filter isClientCall (trace (snd run)) =
         [Call_GetCheckpoint,
          Call_GetSyncCommitteePeriodUpdate 0,
          Call_GetFinalizedUpdate,
          Call_GetNextHeaderUpdateBySlotWithAncestryProof 998
            \<lparr>Proof.FinalizedBlockRoot = [0xab, 0xcd], Proof.BlockRootsTree = 5, Proof.Slot = 1000\<rparr>]
     \<and> filter isOpen (trace (snd run)) =
         [Open (fixtureFile (fixtureName ''initial-checkpoint'' Mainnet)),
          Open (fixtureFile (fixtureName ''sync-committee-update'' Mainnet)),
          Open (fixtureFile (fixtureName ''finalized-header-update'' Mainnet)),
          Open (fixtureFile (fixtureName ''execution-header-update'' Mainnet)),
          Open (benchmarkFile ''fixtures.rs'')]
     \<and> (\<forall>data. snd (RenderFile brokenWorld pathToBenchmarkDataTemplate data) =
           Some (ExternalError ''no such file or directory''))
     \<and> files (snd run) (benchmarkFile ''fixtures.rs'') = Some []
     \<and> fst run = None)"
  unfolding Let_def connect_spec [OF connect_broken] checkpointStage_def syncCommitteeStage_def
    finalizedUpdateStage_def headerUpdateStage_def benchmarkStage_def writeJSONToFile_def
    writeBenchmarkDataFile_def writeFile_def
  by (simp add: broken_world demoSyncer_def demoScaleUpdate_def demoUpdate_def demoBeaconHeader_def
        demoCheckPoint_def fixture_paths_distinct initialState_def)

end
